theory Spec2Isabelle
  imports Complex_Main "HOL-Library.Multiset"
begin

section \<open>Tensor scalars\<close>

text \<open>
  The notebooks compute on \<^verbatim>\<open>float32\<close> tensors. A scalar is modelled as a real number or
  the value \<open>NaN\<close>, which every arithmetic operation propagates. Rounding is not modelled
  (a finite value is an exact real), and a division by zero, which gives an infinity or a
  NaN in IEEE arithmetic, gives \<open>NaN\<close>.
\<close>

datatype tfloat = Fin real | NaN

instantiation tfloat :: comm_monoid_add
begin

definition zero_tfloat :: tfloat where
  "zero_tfloat = Fin 0"

fun plus_tfloat :: "tfloat \<Rightarrow> tfloat \<Rightarrow> tfloat" where
  "plus_tfloat (Fin a) (Fin b) = Fin (a + b)"
| "plus_tfloat NaN y = NaN"
| "plus_tfloat x NaN = NaN"

instance
proof
  fix x y z :: tfloat
  show "x + y = y + x"
    by (cases x; cases y; simp)
  show "(x + y) + z = x + (y + z)"
    by (cases x; cases y; cases z; simp)
  show "0 + x = x"
    unfolding zero_tfloat_def by (cases x; simp)
qed

end

instantiation tfloat :: "{minus, times, inverse}"
begin

fun minus_tfloat :: "tfloat \<Rightarrow> tfloat \<Rightarrow> tfloat" where
  "minus_tfloat (Fin a) (Fin b) = Fin (a - b)"
| "minus_tfloat NaN y = NaN"
| "minus_tfloat x NaN = NaN"

fun times_tfloat :: "tfloat \<Rightarrow> tfloat \<Rightarrow> tfloat" where
  "times_tfloat (Fin a) (Fin b) = Fin (a * b)"
| "times_tfloat NaN y = NaN"
| "times_tfloat x NaN = NaN"

fun divide_tfloat :: "tfloat \<Rightarrow> tfloat \<Rightarrow> tfloat" where
  "divide_tfloat (Fin a) (Fin b) = (if b = 0 then NaN else Fin (a / b))"
| "divide_tfloat NaN y = NaN"
| "divide_tfloat x NaN = NaN"

definition inverse_tfloat :: "tfloat \<Rightarrow> tfloat" where
  "inverse_tfloat x = divide (Fin 1) x"

instance ..

end

text \<open>\<^verbatim>\<open>tf.cast(n, dtype)\<close> of a Python integer, and \<^verbatim>\<open>tf.reduce_sum\<close> of a vector.\<close>

definition cast :: "nat \<Rightarrow> tfloat" where
  "cast n = Fin (real n)"

definition reduce_sum :: "tfloat list \<Rightarrow> tfloat" where
  "reduce_sum xs = sum_list xs"

text \<open>
  \<^verbatim>\<open>tf.nn.compute_average_loss(per_example_loss, global_batch_size=G)\<close>: the notebook
  describes it as the sum of the per-example losses divided by the global batch size,
  \<^verbatim>\<open>tf.reduce_sum(loss) * (1. / GLOBAL_BATCH_SIZE)\<close>.
\<close>

definition compute_average_loss :: "tfloat list \<Rightarrow> nat \<Rightarrow> tfloat" where
  "compute_average_loss per_example_loss global_batch_size =
     reduce_sum per_example_loss / cast global_batch_size"

section \<open>Batch sizes\<close>

text \<open>
  \<^verbatim>\<open>BATCH_SIZE_PER_REPLICA = 64\<close> and
  \<^verbatim>\<open>GLOBAL_BATCH_SIZE = BATCH_SIZE_PER_REPLICA * strategy.num_replicas_in_sync\<close>
  (the custom training loop; the Keras notebooks bind the same product to \<^verbatim>\<open>BATCH_SIZE\<close>).
  The number of replicas is read from the strategy, so it is the argument.
\<close>

definition BATCH_SIZE_PER_REPLICA :: nat where
  "BATCH_SIZE_PER_REPLICA = 64"

definition GLOBAL_BATCH_SIZE :: "nat \<Rightarrow> nat" where
  "GLOBAL_BATCH_SIZE num_replicas_in_sync = BATCH_SIZE_PER_REPLICA * num_replicas_in_sync"

text \<open>The Estimator notebook's \<^verbatim>\<open>BATCH_SIZE = 64\<close>, used by its input and model functions.\<close>

definition BATCH_SIZE :: nat where
  "BATCH_SIZE = 64"

section \<open>The collaborators of the training step\<close>

text \<open>
  The network, the loss, automatic differentiation and the optimizer are the framework's.
  They are the fields of a record, so every statement below holds for whatever they
  compute:
  \<^item> \<open>forward w x\<close>: the prediction of the network with trainable variables \<open>w\<close> on one
    image (\<^verbatim>\<open>model(images, training=True)\<close> is this, image by image);
  \<^item> \<open>per_example_loss y z\<close>: the loss of one example, the loss object being built with
    \<^verbatim>\<open>reduction=tf.keras.losses.Reduction.NONE\<close>;
  \<^item> \<open>tape_gradient f w\<close>: \<^verbatim>\<open>tape.gradient(loss, model.trainable_variables)\<close>, given the
    taped computation \<open>f\<close> of the loss from the variables and their values \<open>w\<close>;
  \<^item> \<open>apply_gradients g (w, slots)\<close>: \<^verbatim>\<open>optimizer.apply_gradients\<close>, from the gradients,
    the variables and the optimizer's own state to the new variables and state;
  \<^item> \<open>predicted_label z\<close>: the class a prediction stands for, which the accuracy metric
    compares with the label.
\<close>

record ('x, 'y, 'z, 'o) collaborators =
  forward :: "tfloat list \<Rightarrow> 'x \<Rightarrow> 'z"
  per_example_loss :: "'y \<Rightarrow> 'z \<Rightarrow> tfloat"
  tape_gradient :: "(tfloat list \<Rightarrow> tfloat) \<Rightarrow> tfloat list \<Rightarrow> tfloat list"
  apply_gradients :: "tfloat list \<Rightarrow> tfloat list \<times> 'o \<Rightarrow> tfloat list \<times> 'o"
  predicted_label :: "'z \<Rightarrow> 'y"

definition model :: "('x, 'y, 'z, 'o) collaborators \<Rightarrow> tfloat list \<Rightarrow> 'x list \<Rightarrow> 'z list" where
  "model env w images = map (forward env w) images"

definition loss_object :: "('x, 'y, 'z, 'o) collaborators \<Rightarrow> 'y list \<Rightarrow> 'z list \<Rightarrow> tfloat list" where
  "loss_object env labels predictions = map2 (per_example_loss env) labels predictions"

text \<open>
  \<^verbatim>\<open>compute_loss(labels, predictions)\<close> of the custom training loop. It reads the global
  \<^verbatim>\<open>GLOBAL_BATCH_SIZE\<close>, here the argument \<open>G\<close>.
\<close>

definition compute_loss :: "('x, 'y, 'z, 'o) collaborators \<Rightarrow> nat \<Rightarrow> 'y list \<Rightarrow> 'z list \<Rightarrow> tfloat" where
  "compute_loss env G labels predictions =
     (let per_example_loss = loss_object env labels predictions
      in compute_average_loss per_example_loss G)"

section \<open>Metrics\<close>

text \<open>
  A Keras accuracy metric keeps a total and a count: \<^verbatim>\<open>update_state(labels, predictions)\<close>
  adds the number of matching examples and the number of examples.
\<close>

record metric =
  total :: nat
  count :: nat

definition update_state :: "('x, 'y, 'z, 'o) collaborators \<Rightarrow> metric \<Rightarrow> 'y list \<Rightarrow> 'z list \<Rightarrow> metric" where
  "update_state env m labels predictions =
     m\<lparr>total := total m + length (filter (\<lambda>(y, z). predicted_label env z = y) (zip labels predictions)),
       count := count m + length (zip labels predictions)\<rparr>"

section \<open>The training step\<close>

text \<open>
  The state \<^verbatim>\<open>train_step\<close> reaches through its globals: the model's trainable variables,
  the optimizer and the training accuracy.
\<close>

record 'o train_state =
  trainable_variables :: "tfloat list"
  optimizer :: 'o
  train_accuracy :: metric

text \<open>
  The part of \<^verbatim>\<open>train_step\<close> under the gradient tape and the call of the tape: predictions,
  scaled loss and gradients of one replica, from the variables it holds and its inputs, a
  list of (image, label) pairs.
\<close>

definition forward_backward ::
  "('x, 'y, 'z, 'o) collaborators \<Rightarrow> nat \<Rightarrow> tfloat list \<Rightarrow> ('x \<times> 'y) list \<Rightarrow> tfloat \<times> tfloat list \<times> 'z list" where
  "forward_backward env G w inputs =
     (let images = map fst inputs; labels = map snd inputs;
          predictions = model env w images;
          loss = compute_loss env G labels predictions;
          gradients = tape_gradient env (\<lambda>v. compute_loss env G labels (model env v images)) w
      in (loss, gradients, predictions))"

text \<open>
  \<^verbatim>\<open>train_step(inputs)\<close> as one replica runs it on its own: forward pass and loss under the
  tape, gradients, \<^verbatim>\<open>optimizer.apply_gradients\<close>, \<^verbatim>\<open>train_accuracy.update_state\<close>, and the
  loss is returned.
\<close>

definition train_step ::
  "('x, 'y, 'z, 'o) collaborators \<Rightarrow> nat \<Rightarrow> 'o train_state \<Rightarrow> ('x \<times> 'y) list \<Rightarrow> tfloat \<times> 'o train_state" where
  "train_step env G s inputs =
     (let (loss, gradients, predictions) = forward_backward env G (trainable_variables s) inputs;
          (w, slots) = apply_gradients env gradients (trainable_variables s, optimizer s);
          acc = update_state env (train_accuracy s) (map snd inputs) predictions
      in (loss, s\<lparr>trainable_variables := w, optimizer := slots, train_accuracy := acc\<rparr>))"

section \<open>The step under a distribution strategy\<close>

text \<open>
  Modelled from the spec: the strategy object itself (mirrored variables, the run of the
  step on every replica, the all-reduce inside \<^verbatim>\<open>apply_gradients\<close>), which the notebooks
  call and the framework implements. Every replica holds its own copy of the trainable
  variables and of the optimizer's state; the accuracy metric is one accumulator for the
  process.
\<close>

record 'o mirrored_state =
  replicas :: "(tfloat list \<times> 'o) list"
  accuracy :: metric

text \<open>
  Modelled from the spec: the gradient aggregator, the elementwise sum across replicas of
  each variable's gradient.
\<close>

fun all_reduce_sum :: "tfloat list list \<Rightarrow> tfloat list" where
  "all_reduce_sum [] = []"
| "all_reduce_sum [g] = g"
| "all_reduce_sum (g # gs) = map2 (+) g (all_reduce_sum gs)"

text \<open>
  Modelled from the spec: \<^verbatim>\<open>strategy.experimental_run_v2(train_step, args=(dataset_inputs,))\<close>.
  Replica \<open>r\<close> runs the taped part of \<^verbatim>\<open>train_step\<close> on its own variables and its own
  sub-batch; \<^verbatim>\<open>apply_gradients\<close> sums the gradients of all replicas and every replica applies
  the sum to its own copy; the metric takes the examples of every replica; the result is
  the list of the replicas' losses. A distributed dataset hands one sub-batch to each
  replica, so \<open>dataset_inputs\<close> has one entry per replica.
\<close>

definition experimental_run_v2 ::
  "('x, 'y, 'z, 'o) collaborators \<Rightarrow> nat \<Rightarrow> 'o mirrored_state \<Rightarrow> ('x \<times> 'y) list list
     \<Rightarrow> tfloat list \<times> 'o mirrored_state" where
  "experimental_run_v2 env G ms dataset_inputs =
     (let outs = map2 (\<lambda>(w, slots) inputs. forward_backward env G w inputs) (replicas ms) dataset_inputs;
          aggregated = all_reduce_sum (map (\<lambda>(loss, gradients, predictions). gradients) outs);
          acc = foldl (\<lambda>m (inputs, (loss, gradients, predictions)).
                         update_state env m (map snd inputs) predictions)
                  (accuracy ms) (zip dataset_inputs outs)
      in (map (\<lambda>(loss, gradients, predictions). loss) outs,
          ms\<lparr>replicas := map (apply_gradients env aggregated) (replicas ms), accuracy := acc\<rparr>))"

text \<open>\<^verbatim>\<open>strategy.reduce(tf.distribute.ReduceOp.SUM, per_replica_losses, axis=None)\<close>.\<close>

definition strategy_reduce_SUM :: "tfloat list \<Rightarrow> tfloat" where
  "strategy_reduce_SUM per_replica_values = sum_list per_replica_values"

text \<open>\<^verbatim>\<open>distributed_train_step(dataset_inputs)\<close>.\<close>

definition distributed_train_step ::
  "('x, 'y, 'z, 'o) collaborators \<Rightarrow> nat \<Rightarrow> 'o mirrored_state \<Rightarrow> ('x \<times> 'y) list list
     \<Rightarrow> tfloat \<times> 'o mirrored_state" where
  "distributed_train_step env G ms dataset_inputs =
     (let (per_replica_losses, ms') = experimental_run_v2 env G ms dataset_inputs
      in (strategy_reduce_SUM per_replica_losses, ms'))"

text \<open>
  The train loop of an epoch: \<^verbatim>\<open>for x in train_dist_dataset: total_loss +=
  distributed_train_step(x); num_batches += 1\<close>, on the triple of the strategy's state,
  \<^verbatim>\<open>total_loss\<close> and \<^verbatim>\<open>num_batches\<close>.
\<close>

fun train_loop ::
  "('x, 'y, 'z, 'o) collaborators \<Rightarrow> nat \<Rightarrow> 'o mirrored_state \<times> tfloat \<times> nat
     \<Rightarrow> ('x \<times> 'y) list list list \<Rightarrow> 'o mirrored_state \<times> tfloat \<times> nat" where
  "train_loop env G (ms, total_loss, num_batches) [] = (ms, total_loss, num_batches)"
| "train_loop env G (ms, total_loss, num_batches) (x # xs) =
     (let (loss, ms') = distributed_train_step env G ms x
      in train_loop env G (ms', total_loss + loss, num_batches + 1) xs)"

text \<open>The replicas are mirrored when they all hold the same variables and optimizer state.\<close>

definition mirrored :: "'o mirrored_state \<Rightarrow> bool" where
  "mirrored ms = (\<forall>c \<in> set (replicas ms). \<forall>d \<in> set (replicas ms). c = d)"

section \<open>Iterating for a number of steps\<close>

text \<open>
  \<^verbatim>\<open>train_iter = iter(train_dist_dataset)\<close> and \<^verbatim>\<open>next(train_iter)\<close>: an iterator is the
  sequence of batches it was made from and its position; \<^verbatim>\<open>next\<close> past the last batch
  raises \<^verbatim>\<open>StopIteration\<close>.
\<close>

datatype error = StopIteration | NotFoundError

record 'a iterator =
  source :: "'a list"
  position :: nat

definition iter :: "'a list \<Rightarrow> 'a iterator" where
  "iter dataset = \<lparr>source = dataset, position = 0\<rparr>"

definition next_batch :: "'a iterator \<Rightarrow> error + 'a \<times> 'a iterator" where
  "next_batch it =
     (if position it < length (source it)
      then Inr (source it ! position it, it\<lparr>position := position it + 1\<rparr>)
      else Inl StopIteration)"

text \<open>
  \<^verbatim>\<open>for _ in range(n): total_loss += distributed_train_step(next(train_iter));
  num_batches += 1\<close>.
\<close>

fun train_steps ::
  "('x, 'y, 'z, 'o) collaborators \<Rightarrow> nat \<Rightarrow> nat
     \<Rightarrow> ('x \<times> 'y) list list iterator \<times> 'o mirrored_state \<times> tfloat \<times> nat
     \<Rightarrow> error + ('x \<times> 'y) list list iterator \<times> 'o mirrored_state \<times> tfloat \<times> nat" where
  "train_steps env G 0 st = Inr st"
| "train_steps env G (Suc n) (train_iter, ms, total_loss, num_batches) =
     (case next_batch train_iter of
        Inl e \<Rightarrow> Inl e
      | Inr (x, train_iter') \<Rightarrow>
          (let (loss, ms') = distributed_train_step env G ms x
           in train_steps env G n (train_iter', ms', total_loss + loss, num_batches + 1)))"

section \<open>Datasets, input function and model function\<close>

text \<open>
  \<^verbatim>\<open>Dataset.shard(num_shards, index)\<close> keeps the elements whose position is \<open>index\<close> modulo
  \<open>num_shards\<close>, in order. \<^verbatim>\<open>Dataset.batch(batch_size)\<close> cuts the sequence into consecutive
  batches of \<open>batch_size\<close> elements, the last one holding what remains. The library rejects
  \<open>num_shards = 0\<close>, \<open>index \<ge> num_shards\<close> and \<open>batch_size = 0\<close>; the statements below
  exclude them.
\<close>

definition shard :: "nat \<Rightarrow> nat \<Rightarrow> 'a list \<Rightarrow> 'a list" where
  "shard num_shards index xs =
     map (nth xs) (filter (\<lambda>k. k mod num_shards = index) [0..<length xs])"

definition batch :: "nat \<Rightarrow> 'a list \<Rightarrow> 'a list list" where
  "batch batch_size xs =
     map (\<lambda>t. take batch_size (drop (t * batch_size) xs))
       [0..<(length xs + batch_size - 1) div batch_size]"

text \<open>
  The datasets of the custom training loop:
  \<^verbatim>\<open>from_tensor_slices((test_images, test_labels)).batch(GLOBAL_BATCH_SIZE)\<close>, and for
  training the same after \<^verbatim>\<open>shuffle(BUFFER_SIZE)\<close>, a pseudo-random permutation taken as
  an argument. Neither drops the remainder. The notebook's data are 60000 training and
  10000 test examples.
\<close>

definition test_dataset :: "nat \<Rightarrow> 'a list \<Rightarrow> 'a list list" where
  "test_dataset num_replicas_in_sync examples = batch (GLOBAL_BATCH_SIZE num_replicas_in_sync) examples"

definition train_dataset :: "('a list \<Rightarrow> 'a list) \<Rightarrow> nat \<Rightarrow> 'a list \<Rightarrow> 'a list list" where
  "train_dataset shuffle num_replicas_in_sync examples =
     batch (GLOBAL_BATCH_SIZE num_replicas_in_sync) (shuffle examples)"

text \<open>The Estimator notebook. \<^verbatim>\<open>scale(image, label)\<close>: the pixels divided by 255.\<close>

definition scale :: "tfloat list \<times> 'l \<Rightarrow> tfloat list \<times> 'l" where
  "scale e = (case e of (pixels, label) \<Rightarrow> (map (\<lambda>pixel. pixel / Fin 255) pixels, label))"

datatype mode = TRAIN | EVAL | PREDICT

record input_context =
  num_input_pipelines :: nat
  input_pipeline_id :: nat

record 'l datasets =
  train :: "(tfloat list \<times> 'l) list"
  test :: "(tfloat list \<times> 'l) list"

text \<open>
  \<^verbatim>\<open>input_fn(mode, input_context=None)\<close>. The loaded datasets and the pseudo-random
  \<^verbatim>\<open>shuffle(BUFFER_SIZE)\<close> are arguments; \<^verbatim>\<open>cache()\<close> changes no element.
\<close>

definition input_fn ::
  "((tfloat list \<times> 'l) list \<Rightarrow> (tfloat list \<times> 'l) list) \<Rightarrow> 'l datasets \<Rightarrow> mode
     \<Rightarrow> input_context option \<Rightarrow> (tfloat list \<times> 'l) list list" where
  "input_fn shuffle datasets mode input_context =
     (let mnist_dataset = (if mode = TRAIN then train datasets else test datasets);
          mnist_dataset =
            (case input_context of
               None \<Rightarrow> mnist_dataset
             | Some c \<Rightarrow> shard (num_input_pipelines c) (input_pipeline_id c) mnist_dataset)
      in batch BATCH_SIZE (shuffle (map scale mnist_dataset)))"

text \<open>
  The loss \<^verbatim>\<open>model_fn(features, labels, mode)\<close> puts into its \<^verbatim>\<open>EstimatorSpec\<close> in training
  and evaluation mode: the unreduced loss of the logits, summed and multiplied by
  \<^verbatim>\<open>1. / BATCH_SIZE\<close>. The features and the labels of a batch have the same length.
\<close>

definition model_fn_loss ::
  "('x, 'y, 'z, 'o) collaborators \<Rightarrow> tfloat list \<Rightarrow> 'x list \<Rightarrow> 'y list \<Rightarrow> tfloat" where
  "model_fn_loss env w features labels =
     (let logits = model env w features;
          loss = loss_object env labels logits
      in reduce_sum loss * Fin (1 / real BATCH_SIZE))"

section \<open>Checkpoints\<close>

text \<open>
  Modelled from the spec: the checkpoint store, \<^verbatim>\<open>save(step_id, parameters) -> handle\<close> and
  \<^verbatim>\<open>load(handle) -> parameters\<close>, whose writer and reader are the framework's. The custom
  training loop builds \<^verbatim>\<open>tf.train.Checkpoint(optimizer=optimizer, model=model)\<close>;
  \<^verbatim>\<open>checkpoint.save(checkpoint_prefix)\<close> writes the variables and the optimizer's state
  under the next save number, \<^verbatim>\<open>tf.train.latest_checkpoint(checkpoint_dir)\<close> is the last
  number written (\<^verbatim>\<open>None\<close> in an empty directory) and \<^verbatim>\<open>checkpoint.restore\<close> reads a
  checkpoint back into a model and an optimizer; restoring \<^verbatim>\<open>None\<close> changes nothing.
\<close>

record 'o checkpoint_dir =
  files :: "nat \<rightharpoonup> tfloat list \<times> 'o"
  save_counter :: nat

definition checkpoint_save :: "'o checkpoint_dir \<Rightarrow> 'o train_state \<Rightarrow> 'o checkpoint_dir" where
  "checkpoint_save dir s =
     (let n = save_counter dir + 1
      in dir\<lparr>files := (files dir)(n \<mapsto> (trainable_variables s, optimizer s)), save_counter := n\<rparr>)"

definition latest_checkpoint :: "'o checkpoint_dir \<Rightarrow> nat option" where
  "latest_checkpoint dir = (if save_counter dir = 0 then None else Some (save_counter dir))"

definition checkpoint_restore ::
  "'o checkpoint_dir \<Rightarrow> nat option \<Rightarrow> 'o train_state \<Rightarrow> error + 'o train_state" where
  "checkpoint_restore dir path s =
     (case path of
        None \<Rightarrow> Inr s
      | Some n \<Rightarrow>
          (case files dir n of
             None \<Rightarrow> Inl NotFoundError
           | Some (w, slots) \<Rightarrow> Inr (s\<lparr>trainable_variables := w, optimizer := slots\<rparr>)))"

text \<open>
  Modelled from the spec: \<^verbatim>\<open>model.save_weights(path)\<close> and \<^verbatim>\<open>model.load_weights(path)\<close> of
  the notebook on saving models, a snapshot of the model's variables under a path.
\<close>

definition save_weights ::
  "(string \<rightharpoonup> tfloat list) \<Rightarrow> string \<Rightarrow> 'o train_state \<Rightarrow> (string \<rightharpoonup> tfloat list)" where
  "save_weights store path s = store(path \<mapsto> trainable_variables s)"

definition load_weights ::
  "(string \<rightharpoonup> tfloat list) \<Rightarrow> string \<Rightarrow> 'o train_state \<Rightarrow> error + 'o train_state" where
  "load_weights store path s =
     (case store path of
        None \<Rightarrow> Inl NotFoundError
      | Some w \<Rightarrow> Inr (s\<lparr>trainable_variables := w\<rparr>))"

section \<open>A concrete instance\<close>

text \<open>
  The linear model of the notebook on custom training, \<^verbatim>\<open>W * x + b\<close> with the squared
  error and gradient descent with learning rate 0.1, as an instance of the collaborators.
  Its variables are the pair \<open>W\<close>, \<open>b\<close>. Its loss is quadratic in the variables, for which
  the central difference with step 1 is the gradient. The optimizer's state is the number
  of updates applied.
\<close>

definition central_difference :: "(tfloat list \<Rightarrow> tfloat) \<Rightarrow> tfloat list \<Rightarrow> tfloat list" where
  "central_difference f w =
     map (\<lambda>i. (f (w[i := w ! i + Fin 1]) - f (w[i := w ! i - Fin 1])) / Fin 2) [0..<length w]"

definition linear_model :: "(tfloat, tfloat, tfloat, nat) collaborators" where
  "linear_model =
     \<lparr>forward = (\<lambda>w x. case w of [W, b] \<Rightarrow> W * x + b | _ \<Rightarrow> NaN),
      per_example_loss = (\<lambda>y z. (z - y) * (z - y)),
      tape_gradient = central_difference,
      apply_gradients = (\<lambda>g (w, iterations). (map2 (\<lambda>v d. v - Fin (1 / 10) * d) w g, Suc iterations)),
      predicted_label = (\<lambda>z. z)\<rparr>"

text \<open>The per-example losses of a sub-batch under the variables \<open>w\<close>.\<close>

definition per_example_losses ::
  "('x, 'y, 'z, 'o) collaborators \<Rightarrow> tfloat list \<Rightarrow> ('x \<times> 'y) list \<Rightarrow> tfloat list" where
  "per_example_losses env w inputs = loss_object env (map snd inputs) (model env w (map fst inputs))"

section \<open>Scalar arithmetic\<close>

lemma tfloat_add_divide_distrib: "(a + b) / c = a / c + b / (c :: tfloat)"
  by (cases a; cases b; cases c) (simp_all add: add_divide_distrib)

section \<open>The scaled loss\<close>

lemma per_example_losses_map:
  "per_example_losses env w inputs = map (\<lambda>(x, y). per_example_loss env y (forward env w x)) inputs"
  by (induction inputs) (auto simp: per_example_losses_def loss_object_def model_def)

lemma per_example_losses_concat:
  "per_example_losses env w (concat parts) = concat (map (per_example_losses env w) parts)"
  by (induction parts) (simp_all add: per_example_losses_map)

lemma length_per_example_losses: "length (per_example_losses env w inputs) = length inputs"
  by (simp add: per_example_losses_map)

lemma forward_backward_loss:
  "fst (forward_backward env G w inputs) = compute_average_loss (per_example_losses env w inputs) G"
  by (simp add: forward_backward_def compute_loss_def per_example_losses_def Let_def)

lemma map2_replicate_left:
  "map2 (\<lambda>(w, slots) inputs. f w inputs) (replicate (length ys) (w0, s0)) ys = map (f w0) ys"
  by (induction ys) auto

lemma tfloat_zero_divide: "0 < G \<Longrightarrow> (0 :: tfloat) / cast G = 0"
  by (simp add: zero_tfloat_def cast_def)

lemma reduce_SUM_compute_average_loss:
  "0 < G \<Longrightarrow>
   strategy_reduce_SUM (map (\<lambda>l. compute_average_loss l G) per_replica) =
   compute_average_loss (concat per_replica) G"
  by (induction per_replica)
    (simp_all add: strategy_reduce_SUM_def compute_average_loss_def reduce_sum_def
      tfloat_zero_divide tfloat_add_divide_distrib)

lemma run_losses:
  assumes "replicas ms = replicate (length parts) (w, slots)"
  shows "fst (experimental_run_v2 env G ms parts) =
     map (\<lambda>p. compute_average_loss (per_example_losses env w p) G) parts"
proof -
  have "map2 (\<lambda>(w, slots) inputs. forward_backward env G w inputs) (replicas ms) parts
      = map (forward_backward env G w) parts"
    by (simp add: assms map2_replicate_left)
  then show ?thesis
    by (simp add: experimental_run_v2_def Let_def forward_backward_loss [symmetric] case_prod_unfold comp_def)
qed

text \<open>
  C3. For every division of a global batch of \<open>G\<close> examples into per-replica sub-batches,
  of equal sizes or not, each replica's loss is the sum of its per-example losses divided
  by \<open>G\<close>, and the sum of these over the replicas, which \<^verbatim>\<open>distributed_train_step\<close> returns,
  is the average loss over the whole batch, the loss a single replica computes on it. The
  notebook's example: losses 2, 3 on one replica and 4, 5 on the other with \<open>G = 4\<close> give
  1.25 and 2.25, together 3.5.
\<close>

theorem summed_replica_losses:
  assumes "replicas ms = replicate (length parts) (w, slots)"
    and "length (concat parts) = G" and "0 < G"
  shows "fst (experimental_run_v2 env G ms parts)
        = map (\<lambda>p. reduce_sum (per_example_losses env w p) / cast G) parts
    \<and> fst (distributed_train_step env G ms parts)
        = reduce_sum (per_example_losses env w (concat parts)) / cast (length (concat parts))
    \<and> fst (distributed_train_step env G ms parts)
        = fst (train_step env G \<lparr>trainable_variables = w, optimizer = slots, train_accuracy = acc\<rparr> (concat parts))"
proof -
  have run: "fst (experimental_run_v2 env G ms parts)
      = map (\<lambda>p. compute_average_loss (per_example_losses env w p) G) parts"
    using assms(1) by (rule run_losses)
  have "fst (distributed_train_step env G ms parts)
      = strategy_reduce_SUM (fst (experimental_run_v2 env G ms parts))"
    by (simp add: distributed_train_step_def case_prod_unfold Let_def)
  also have "\<dots> = strategy_reduce_SUM (map (\<lambda>l. compute_average_loss l G) (map (per_example_losses env w) parts))"
    by (simp add: run comp_def)
  also have "\<dots> = compute_average_loss (per_example_losses env w (concat parts)) G"
    using assms(3) reduce_SUM_compute_average_loss [of G "map (per_example_losses env w) parts"]
    by (simp only: per_example_losses_concat)
  finally have total: "fst (distributed_train_step env G ms parts)
      = compute_average_loss (per_example_losses env w (concat parts)) G" .
  have single: "fst (train_step env G \<lparr>trainable_variables = w, optimizer = slots, train_accuracy = acc\<rparr> (concat parts))
      = compute_average_loss (per_example_losses env w (concat parts)) G"
    by (simp add: train_step_def case_prod_unfold Let_def forward_backward_loss)
  show ?thesis
    using run total single assms(2) by (simp add: compute_average_loss_def)
qed

theorem summed_replica_losses_witness:
  "fst (distributed_train_step
      \<lparr>forward = (\<lambda>w x. x), per_example_loss = (\<lambda>y z. z), tape_gradient = (\<lambda>f w. w),
       apply_gradients = (\<lambda>g c. c), predicted_label = (\<lambda>z. ())\<rparr> 4
      \<lparr>replicas = [([], ()), ([], ())], accuracy = \<lparr>total = 0, count = 0\<rparr>\<rparr>
      [[(Fin 2, ()), (Fin 3, ())], [(Fin 4, ()), (Fin 5, ())]]) = Fin (7 / 2)
   \<and> fst (experimental_run_v2
      \<lparr>forward = (\<lambda>w x. x), per_example_loss = (\<lambda>y z. z), tape_gradient = (\<lambda>f w. w),
       apply_gradients = (\<lambda>g c. c), predicted_label = (\<lambda>z. ())\<rparr> 4
      \<lparr>replicas = [([], ()), ([], ())], accuracy = \<lparr>total = 0, count = 0\<rparr>\<rparr>
      [[(Fin 2, ()), (Fin 3, ())], [(Fin 4, ()), (Fin 5, ())]]) = [Fin (5 / 4), Fin (9 / 4)]"
  using summed_replica_losses [of
      "\<lparr>replicas = [([], ()), ([], ())], accuracy = \<lparr>total = 0, count = 0\<rparr>\<rparr>"
      "[[(Fin 2, ()), (Fin 3, ())], [(Fin 4, ()), (Fin 5, ())]]" "[]" "()" 4
      "\<lparr>forward = (\<lambda>w x. x), per_example_loss = (\<lambda>y z. z), tape_gradient = (\<lambda>f w. w),
       apply_gradients = (\<lambda>g c. c), predicted_label = (\<lambda>z. ())\<rparr>"]
  by (simp add: per_example_losses_map reduce_sum_def cast_def zero_tfloat_def)


section \<open>Sharding the input\<close>

lemma shard_snoc:
  "shard n i (ys @ [y]) = shard n i ys @ (if length ys mod n = i then [y] else [])"
proof -
  have "map (nth (ys @ [y])) (filter (\<lambda>k. k mod n = i) [0..<length ys])
      = map (nth ys) (filter (\<lambda>k. k mod n = i) [0..<length ys])"
    by (rule map_cong) (auto simp: nth_append)
  then show ?thesis
    by (simp add: shard_def)
qed

lemma shard_Nil: "shard n i [] = []"
  by (simp add: shard_def)

lemma mset_shards:
  assumes "0 < n"
  shows "(\<Sum>i<n. mset (shard n i xs)) = mset xs"
proof (induction xs rule: rev_induct)
  case Nil
  then show ?case by (simp add: shard_Nil)
next
  case (snoc y ys)
  have "(\<Sum>i<n. mset (shard n i (ys @ [y])))
      = (\<Sum>i<n. mset (shard n i ys) + (if length ys mod n = i then {#y#} else {#}))"
    by (rule sum.cong) (simp_all add: shard_snoc)
  also have "\<dots> = (\<Sum>i<n. mset (shard n i ys)) + (\<Sum>i<n. if length ys mod n = i then {#y#} else {#})"
    by (simp add: sum.distrib)
  also have "(\<Sum>i<n. if length ys mod n = i then {#y#} else {#}) = {#y#}"
    using assms by (simp add: sum.delta)
  finally show ?case using snoc.IH by simp
qed

lemma length_shard:
  assumes "i < n"
  shows "length (shard n i xs) = length xs div n + (if i < length xs mod n then 1 else 0)"
proof (induction xs rule: rev_induct)
  case Nil
  then show ?case by (simp add: shard_Nil)
next
  case (snoc y ys)
  show ?case
  proof (cases "Suc (length ys mod n) = n")
    case True
    then have "Suc (length ys) mod n = 0" "Suc (length ys) div n = Suc (length ys div n)"
      by (simp_all add: mod_Suc div_Suc)
    then show ?thesis
      using snoc.IH True assms by (auto simp: shard_snoc)
  next
    case False
    then have "Suc (length ys) mod n = Suc (length ys mod n)" "Suc (length ys) div n = length ys div n"
      by (simp_all add: mod_Suc div_Suc)
    then show ?thesis
      using snoc.IH False assms by (auto simp: shard_snoc)
  qed
qed

lemma shard_sizes_near:
  assumes "i < n" "j < n"
  shows "length (shard n i xs) \<le> length (shard n j xs) + 1"
  using assms by (simp add: length_shard)

lemma concat_batch_take:
  "concat (map (\<lambda>t. take k (drop (t * k) xs)) [0..<m]) = take (m * k) xs"
proof (induction m)
  case 0
  then show ?case by simp
next
  case (Suc m)
  have "take (m * k + k) xs = take (m * k) xs @ take k (drop (m * k) xs)"
    by (simp only: take_add)
  with Suc show ?case by (simp add: add.commute)
qed

lemma ceil_div_covers: "0 < k \<Longrightarrow> (L::nat) \<le> ((L + k - 1) div k) * k"
proof -
  assume k: "0 < k"
  have "(L + k - 1) div k * k + (L + k - 1) mod k = L + k - 1"
    by simp
  moreover have "(L + k - 1) mod k < k"
    using k by simp
  ultimately show ?thesis by linarith
qed

lemma concat_batch:
  assumes "0 < k"
  shows "concat (batch k xs) = xs"
proof -
  have "concat (batch k xs) = take ((length xs + k - 1) div k * k) xs"
    unfolding batch_def by (rule concat_batch_take)
  also have "\<dots> = xs"
    using ceil_div_covers [OF assms, of "length xs"] by (rule take_all)
  finally show ?thesis .
qed

lemma length_batch: "length (batch k xs) = (length xs + k - 1) div k"
  by (simp add: batch_def)

lemma nth_batch: "t < length (batch k xs) \<Longrightarrow> batch k xs ! t = take k (drop (t * k) xs)"
  by (simp add: batch_def)

lemma length_nth_batch:
  "t < length (batch k xs) \<Longrightarrow> length (batch k xs ! t) = min k (length xs - t * k)"
  by (simp add: nth_batch min.commute)

lemma batch_index_inside:
  assumes "0 < k" and "t < length (batch k xs)"
  shows "t * k < length xs"
proof -
  have "Suc t \<le> (length xs + k - 1) div k"
    using assms(2) by (simp add: length_batch)
  then have "Suc t * k \<le> length xs + k - 1"
    using assms(1) by (simp add: less_eq_div_iff_mult_less_eq)
  then show ?thesis
    using assms(1) by simp
qed

lemma nth_batch_nonempty:
  assumes "0 < k" and "t < length (batch k xs)"
  shows "0 < length (batch k xs ! t)"
  using batch_index_inside [OF assms] assms by (simp add: length_nth_batch)

lemma full_batch:
  assumes "0 < k" and "Suc t < length (batch k xs)"
  shows "length (batch k xs ! t) = k"
proof -
  have "Suc t * k < length xs"
    using assms by (rule batch_index_inside)
  then have "k \<le> length xs - t * k"
    by simp
  moreover have "t < length (batch k xs)"
    using assms(2) by simp
  ultimately show ?thesis
    by (simp add: length_nth_batch)
qed

lemma dvd_sum_list: "\<forall>x\<in>set ns. (r::nat) dvd x \<Longrightarrow> r dvd sum_list ns"
  by (induction ns) simp_all

lemma batches_divisible:
  assumes "0 < k" and "r dvd k"
  shows "(\<forall>b\<in>set (batch k xs). r dvd length b) \<longleftrightarrow> r dvd length xs"
proof
  assume all: "\<forall>b\<in>set (batch k xs). r dvd length b"
  have "length xs = length (concat (batch k xs))"
    using assms(1) by (simp add: concat_batch)
  also have "\<dots> = sum_list (map length (batch k xs))"
    by (simp add: length_concat)
  finally show "r dvd length xs"
    using all by (simp add: dvd_sum_list)
next
  assume whole: "r dvd length xs"
  show "\<forall>b\<in>set (batch k xs). r dvd length b"
  proof
    fix b assume "b \<in> set (batch k xs)"
    then obtain t where t: "t < length (batch k xs)" and b: "b = batch k xs ! t"
      by (auto simp: in_set_conv_nth)
    have "r dvd t * k"
      using assms(2) by simp
    then have "r dvd length xs - t * k"
      using whole by (rule dvd_diff_nat [rotated])
    then show "r dvd length b"
      using assms(2) by (simp add: b length_nth_batch [OF t] min_def)
  qed
qed


lemma image_mset_sum_lessThan:
  "(\<Sum>i<(m::nat). image_mset f (g i)) = image_mset f (\<Sum>i<m. g i)"
  by (induction m) simp_all

lemma shard_index_inside:
  assumes "i < n" and "m < length (shard n i xs)"
  shows "m * n + i < length xs"
proof (cases "i < length xs mod n")
  case True
  then have "m \<le> length xs div n"
    using assms by (simp add: length_shard)
  then have "m * n \<le> length xs div n * n"
    by simp
  moreover have "length xs div n * n + length xs mod n = length xs"
    by simp
  ultimately show ?thesis
    using True by linarith
next
  case False
  then have "Suc m \<le> length xs div n"
    using assms by (simp add: length_shard)
  then have "Suc m * n \<le> length xs div n * n"
    by (rule mult_le_mono1)
  then have "m * n + n \<le> length xs div n * n"
    by simp
  moreover have "length xs div n * n \<le> length xs"
    by simp
  ultimately show ?thesis
    using assms(1) by linarith
qed

lemma nth_shard:
  assumes "i < n"
  shows "m < length (shard n i xs) \<Longrightarrow> shard n i xs ! m = xs ! (m * n + i)"
proof (induction xs rule: rev_induct)
  case Nil
  then show ?case by (simp add: shard_Nil)
next
  case (snoc y ys)
  show ?case
  proof (cases "m < length (shard n i ys)")
    case True
    then have "m * n + i < length ys"
      using assms by (intro shard_index_inside)
    then show ?thesis
      using True snoc.IH by (simp add: shard_snoc nth_append)
  next
    case False
    then have last: "length ys mod n = i" and m: "m = length (shard n i ys)"
      using snoc.prems by (auto simp: shard_snoc split: if_splits)
    have "length (shard n i ys) = length ys div n"
      using assms last by (simp add: length_shard)
    then have "m * n + i = length ys div n * n + length ys mod n"
      by (simp only: m last)
    then have "m * n + i = length ys"
      by (simp only: div_mult_mod_eq)
    then show ?thesis
      using last m by (simp add: shard_snoc nth_append)
  qed
qed

lemma input_fn_sharded:
  "input_fn shuffle ds mode (Some \<lparr>num_input_pipelines = n, input_pipeline_id = i\<rparr>)
     = batch BATCH_SIZE (shuffle (map scale (shard n i (if mode = TRAIN then train ds else test ds))))"
  by (simp add: input_fn_def Let_def)

lemma BATCH_SIZE_positive: "0 < BATCH_SIZE"
  by (simp add: BATCH_SIZE_def)

lemma batch_count_near:
  assumes "0 < k" and "length xs \<le> length ys + 1"
  shows "length (batch k xs) \<le> length (batch k ys) + 1"
proof -
  have "(length xs + k - 1) div k \<le> (length ys + k - 1 + k) div k"
    using assms by (intro div_le_mono) simp
  also have "\<dots> = (length ys + k - 1) div k + 1"
  proof -
    have "k \<noteq> 0"
      using assms(1) by simp
    then show ?thesis
      by (rule div_add_self2)
  qed
  finally show ?thesis
    by (simp add: length_batch)
qed

lemma batch_sizes_near:
  assumes "length xs \<le> length ys + 1"
    and "t < length (batch k xs)" and "t < length (batch k ys)"
  shows "length (batch k xs ! t) \<le> length (batch k ys ! t) + 1"
  using assms(1) by (simp add: length_nth_batch assms(2,3))

lemma sharded_batches_identity:
  "input_fn (\<lambda>xs. xs) ds mode (Some \<lparr>num_input_pipelines = n, input_pipeline_id = i\<rparr>)
     = batch BATCH_SIZE (map scale (shard n i (if mode = TRAIN then train ds else test ds)))"
  by (rule input_fn_sharded)

text \<open>
  C6 as stated fails. \<^verbatim>\<open>input_fn\<close> shards the whole dataset, not each batch. With two
  input pipelines over 129 examples the first pipeline holds 65 examples and delivers two
  batches, of 64 and of 1, and the second holds 64 and delivers one batch: at the second
  step there is one sub-batch for two pipelines.
\<close>

theorem pipelines_deliver_different_numbers_of_batches:
  "length (input_fn (\<lambda>xs. xs) \<lparr>train = replicate 129 ([Fin 0], 0::nat), test = []\<rparr> TRAIN
      (Some \<lparr>num_input_pipelines = 2, input_pipeline_id = 0\<rparr>)) = 2
   \<and> length (input_fn (\<lambda>xs. xs) \<lparr>train = replicate 129 ([Fin 0], 0::nat), test = []\<rparr> TRAIN
      (Some \<lparr>num_input_pipelines = 2, input_pipeline_id = 1\<rparr>)) = 1
   \<and> length (input_fn (\<lambda>xs. xs) \<lparr>train = replicate 129 ([Fin 0], 0::nat), test = []\<rparr> TRAIN
      (Some \<lparr>num_input_pipelines = 2, input_pipeline_id = 0\<rparr>) ! 0) = 64
   \<and> length (input_fn (\<lambda>xs. xs) \<lparr>train = replicate 129 ([Fin 0], 0::nat), test = []\<rparr> TRAIN
      (Some \<lparr>num_input_pipelines = 2, input_pipeline_id = 1\<rparr>) ! 0) = 64
   \<and> length (input_fn (\<lambda>xs. xs) \<lparr>train = replicate 129 ([Fin 0], 0::nat), test = []\<rparr> TRAIN
      (Some \<lparr>num_input_pipelines = 2, input_pipeline_id = 0\<rparr>) ! 1) = 1"
proof -
  let ?P = "\<lambda>i. input_fn (\<lambda>xs. xs) \<lparr>train = replicate 129 ([Fin 0], 0::nat), test = []\<rparr> TRAIN
      (Some \<lparr>num_input_pipelines = 2, input_pipeline_id = i\<rparr>)"
  have count0: "length (?P 0) = 2"
    by (simp add: sharded_batches_identity length_batch length_shard BATCH_SIZE_def)
  have count1: "length (?P 1) = 1"
    by (simp add: sharded_batches_identity length_batch length_shard BATCH_SIZE_def)
  have first0: "length (?P 0 ! 0) = 64"
    using count0 by (simp add: sharded_batches_identity length_nth_batch length_shard BATCH_SIZE_def)
  have first1: "length (?P 1 ! 0) = 64"
    using count1 by (simp add: sharded_batches_identity length_nth_batch length_shard BATCH_SIZE_def)
  have second0: "length (?P 0 ! 1) = 1"
    using count0 by (simp add: sharded_batches_identity length_nth_batch length_shard BATCH_SIZE_def)
  show ?thesis
    using count0 count1 first0 first1 second0 by blast
qed

text \<open>
  C6, as the code has it. With \<open>n\<close> input pipelines, \<^verbatim>\<open>input_fn\<close> gives pipeline \<open>i\<close> the
  examples of the dataset at the positions \<open>i\<close>, \<open>i + n\<close>, \<open>i + 2n\<close>, ..., shuffled by the
  pipeline's own shuffle; the pipelines together hold every example exactly once, and
  their numbers of examples differ by at most one. Each pipeline cuts its shuffled shard
  into batches of 64, none empty, the last one holding what remains, so the numbers of
  batches of two pipelines differ by at most one, and at a step where two pipelines both
  deliver a batch the sizes of the two batches differ by at most one.
\<close>

theorem sharded_input_pipelines:
  assumes "0 < n" and "\<forall>i xs. mset (shuffle_of i xs) = mset xs"
  shows "(\<forall>i<n. concat (input_fn (shuffle_of i) ds mode
              (Some \<lparr>num_input_pipelines = n, input_pipeline_id = i\<rparr>))
          = shuffle_of i (map scale (shard n i (if mode = TRAIN then train ds else test ds))))
    \<and> (\<forall>i<n. \<forall>m<length (shard n i (if mode = TRAIN then train ds else test ds)).
          shard n i (if mode = TRAIN then train ds else test ds) ! m
          = (if mode = TRAIN then train ds else test ds) ! (m * n + i))
    \<and> (\<Sum>i<n. mset (concat (input_fn (shuffle_of i) ds mode
            (Some \<lparr>num_input_pipelines = n, input_pipeline_id = i\<rparr>))))
        = mset (map scale (if mode = TRAIN then train ds else test ds))
    \<and> (\<forall>i<n. \<forall>j<n.
          length (concat (input_fn (shuffle_of i) ds mode
            (Some \<lparr>num_input_pipelines = n, input_pipeline_id = i\<rparr>)))
        \<le> length (concat (input_fn (shuffle_of j) ds mode
            (Some \<lparr>num_input_pipelines = n, input_pipeline_id = j\<rparr>))) + 1)
    \<and> (\<forall>i<n.
          length (input_fn (shuffle_of i) ds mode
            (Some \<lparr>num_input_pipelines = n, input_pipeline_id = i\<rparr>))
          = (length (shard n i (if mode = TRAIN then train ds else test ds)) + BATCH_SIZE - 1)
              div BATCH_SIZE)
    \<and> (\<forall>i<n. \<forall>j<n.
          length (input_fn (shuffle_of i) ds mode
            (Some \<lparr>num_input_pipelines = n, input_pipeline_id = i\<rparr>))
        \<le> length (input_fn (shuffle_of j) ds mode
            (Some \<lparr>num_input_pipelines = n, input_pipeline_id = j\<rparr>)) + 1)
    \<and> (\<forall>i<n. \<forall>t<length (input_fn (shuffle_of i) ds mode
            (Some \<lparr>num_input_pipelines = n, input_pipeline_id = i\<rparr>)).
          length (input_fn (shuffle_of i) ds mode
            (Some \<lparr>num_input_pipelines = n, input_pipeline_id = i\<rparr>) ! t)
          = min BATCH_SIZE
              (length (shard n i (if mode = TRAIN then train ds else test ds)) - t * BATCH_SIZE)
          \<and> 0 < length (input_fn (shuffle_of i) ds mode
            (Some \<lparr>num_input_pipelines = n, input_pipeline_id = i\<rparr>) ! t))
    \<and> (\<forall>i<n. \<forall>j<n. \<forall>t.
          t < length (input_fn (shuffle_of i) ds mode
            (Some \<lparr>num_input_pipelines = n, input_pipeline_id = i\<rparr>))
          \<and> t < length (input_fn (shuffle_of j) ds mode
            (Some \<lparr>num_input_pipelines = n, input_pipeline_id = j\<rparr>))
          \<longrightarrow> length (input_fn (shuffle_of i) ds mode
            (Some \<lparr>num_input_pipelines = n, input_pipeline_id = i\<rparr>) ! t)
          \<le> length (input_fn (shuffle_of j) ds mode
            (Some \<lparr>num_input_pipelines = n, input_pipeline_id = j\<rparr>) ! t) + 1)"
proof -
  let ?D = "if mode = TRAIN then train ds else test ds"
  let ?S = "\<lambda>i. shuffle_of i (map scale (shard n i ?D))"
  let ?P = "\<lambda>i. input_fn (shuffle_of i) ds mode (Some \<lparr>num_input_pipelines = n, input_pipeline_id = i\<rparr>)"
  have P: "?P i = batch BATCH_SIZE (?S i)" for i
    by (rule input_fn_sharded)
  have S: "length (?S i) = length (shard n i ?D)" for i
    using assms(2) by (metis length_map size_mset)
  have content: "concat (?P i) = ?S i" for i
    by (simp only: P concat_batch [OF BATCH_SIZE_positive])
  have position: "\<forall>i<n. \<forall>m<length (shard n i ?D). shard n i ?D ! m = ?D ! (m * n + i)"
    by (simp add: nth_shard)
  have each: "mset (concat (?P i)) = image_mset scale (mset (shard n i ?D))" for i
    using assms(2) by (simp add: content)
  have "(\<Sum>i<n. mset (concat (?P i))) = (\<Sum>i<n. image_mset scale (mset (shard n i ?D)))"
    by (simp only: each)
  also have "\<dots> = image_mset scale (\<Sum>i<n. mset (shard n i ?D))"
    by (rule image_mset_sum_lessThan)
  also have "\<dots> = mset (map scale ?D)"
    using assms(1) by (simp add: mset_shards)
  finally have cover: "(\<Sum>i<n. mset (concat (?P i))) = mset (map scale ?D)" .
  have near: "length (?S i) \<le> length (?S j) + 1" if "i < n" "j < n" for i j
    using that by (simp only: S shard_sizes_near)
  have shards_near: "\<forall>i<n. \<forall>j<n. length (concat (?P i)) \<le> length (concat (?P j)) + 1"
    using near by (simp only: content) blast
  have count: "\<forall>i<n. length (?P i) = (length (shard n i ?D) + BATCH_SIZE - 1) div BATCH_SIZE"
    by (simp only: P length_batch S) simp
  have counts_near: "\<forall>i<n. \<forall>j<n. length (?P i) \<le> length (?P j) + 1"
    using near batch_count_near [OF BATCH_SIZE_positive] by (simp only: P) blast
  have sizes: "\<forall>i<n. \<forall>t<length (?P i).
      length (?P i ! t) = min BATCH_SIZE (length (shard n i ?D) - t * BATCH_SIZE)
      \<and> 0 < length (?P i ! t)"
  proof (intro allI impI)
    fix i t
    assume "i < n" and "t < length (?P i)"
    then have t: "t < length (batch BATCH_SIZE (?S i))"
      by (simp only: P)
    have "length (batch BATCH_SIZE (?S i) ! t) = min BATCH_SIZE (length (?S i) - t * BATCH_SIZE)"
      using t by (rule length_nth_batch)
    moreover have "0 < length (batch BATCH_SIZE (?S i) ! t)"
      using BATCH_SIZE_positive t by (rule nth_batch_nonempty)
    ultimately show "length (?P i ! t) = min BATCH_SIZE (length (shard n i ?D) - t * BATCH_SIZE)
        \<and> 0 < length (?P i ! t)"
      by (simp only: P S)
  qed
  have sizes_near: "\<forall>i<n. \<forall>j<n. \<forall>t. t < length (?P i) \<and> t < length (?P j)
      \<longrightarrow> length (?P i ! t) \<le> length (?P j ! t) + 1"
    using near batch_sizes_near by (simp only: P) blast
  show ?thesis
    using content position cover shards_near count counts_near sizes sizes_near
    by blast
qed


theorem sharded_input_pipelines_witness:
  "input_fn rev \<lparr>train = [([Fin 255], 7::nat), ([Fin 0], 3), ([Fin 51], 9)], test = []\<rparr> TRAIN
      (Some \<lparr>num_input_pipelines = 2, input_pipeline_id = 0\<rparr>) = [[([Fin (1 / 5)], 9), ([Fin 1], 7)]]
   \<and> input_fn rev \<lparr>train = [([Fin 255], 7::nat), ([Fin 0], 3), ([Fin 51], 9)], test = []\<rparr> TRAIN
      (Some \<lparr>num_input_pipelines = 2, input_pipeline_id = 1\<rparr>) = [[([Fin 0], 3)]]
   \<and> (\<Sum>i<2. mset (concat (input_fn rev \<lparr>train = [([Fin 255], 7::nat), ([Fin 0], 3), ([Fin 51], 9)], test = []\<rparr> TRAIN
      (Some \<lparr>num_input_pipelines = 2, input_pipeline_id = i\<rparr>))))
      = mset (map scale [([Fin 255], 7::nat), ([Fin 0], 3), ([Fin 51], 9)])
   \<and> length (input_fn rev \<lparr>train = [([Fin 255], 7::nat), ([Fin 0], 3), ([Fin 51], 9)], test = []\<rparr> TRAIN
      (Some \<lparr>num_input_pipelines = 2, input_pipeline_id = 0\<rparr>))
      \<le> length (input_fn rev \<lparr>train = [([Fin 255], 7::nat), ([Fin 0], 3), ([Fin 51], 9)], test = []\<rparr> TRAIN
      (Some \<lparr>num_input_pipelines = 2, input_pipeline_id = 1\<rparr>)) + 1
   \<and> length (input_fn rev \<lparr>train = [([Fin 255], 7::nat), ([Fin 0], 3), ([Fin 51], 9)], test = []\<rparr> TRAIN
      (Some \<lparr>num_input_pipelines = 2, input_pipeline_id = 0\<rparr>) ! 0)
      \<le> length (input_fn rev \<lparr>train = [([Fin 255], 7::nat), ([Fin 0], 3), ([Fin 51], 9)], test = []\<rparr> TRAIN
      (Some \<lparr>num_input_pipelines = 2, input_pipeline_id = 1\<rparr>) ! 0) + 1"
proof -
  let ?ds = "\<lparr>train = [([Fin 255], 7::nat), ([Fin 0], 3), ([Fin 51], 9)], test = []\<rparr>"
  let ?P = "\<lambda>i. input_fn rev ?ds TRAIN (Some \<lparr>num_input_pipelines = 2, input_pipeline_id = i\<rparr>)"
  have shuffle: "\<forall>i xs. mset ((\<lambda>i. rev) i xs) = mset (xs :: (tfloat list \<times> nat) list)"
    by simp
  have pos: "(0::nat) < 2"
    by simp
  have eval0: "?P 0 = [[([Fin (1 / 5)], 9), ([Fin 1], 7)]]"
    by (simp add: input_fn_def shard_def batch_def scale_def BATCH_SIZE_def)
  have eval1: "?P 1 = [[([Fin 0], 3)]]"
    by (simp add: input_fn_def shard_def batch_def scale_def BATCH_SIZE_def)
  note all = sharded_input_pipelines [OF pos shuffle, of ?ds TRAIN]
  have cover: "(\<Sum>i<2. mset (concat (?P i)))
      = mset (map scale [([Fin 255], 7::nat), ([Fin 0], 3), ([Fin 51], 9)])"
    using all by (simp only: simp_thms if_True datasets.select_convs)
  have counts: "length (?P i) \<le> length (?P j) + 1" if "i < 2" "j < 2" for i j
    using all that by blast
  have sizes: "length (?P i ! t) \<le> length (?P j ! t) + 1"
    if "i < 2" "j < 2" "t < length (?P i)" "t < length (?P j)" for i j t
    using all that by blast
  have "length (?P 0) \<le> length (?P 1) + 1"
    by (rule counts) simp_all
  moreover have "length (?P 0 ! 0) \<le> length (?P 1 ! 0) + 1"
    using eval0 eval1 by (intro sizes) simp_all
  ultimately show ?thesis
    using eval0 eval1 cover by blast
qed

section \<open>Batch sizes and replica counts\<close>

lemma GLOBAL_BATCH_SIZE_positive: "0 < n \<Longrightarrow> 0 < GLOBAL_BATCH_SIZE n"
  by (simp add: GLOBAL_BATCH_SIZE_def BATCH_SIZE_PER_REPLICA_def)

lemma shuffle_length: "\<forall>xs. mset (shuffle xs) = mset xs \<Longrightarrow> length (shuffle xs) = length xs"
  by (metis size_mset)

text \<open>
  C10 as stated fails at the last batch of an epoch, the datasets being batched without
  dropping the remainder. With 3 replicas the global batch size is 192, a multiple of 3,
  and the 10000 test examples give 52 batches of 192 and a last batch of 16 examples,
  which 3 does not divide.
\<close>

theorem last_batch_splits_unevenly:
  "GLOBAL_BATCH_SIZE 3 = 192
   \<and> 3 dvd GLOBAL_BATCH_SIZE 3
   \<and> length (test_dataset 3 (replicate 10000 (0::nat))) = 53
   \<and> length (test_dataset 3 (replicate 10000 (0::nat)) ! 51) = 192
   \<and> length (test_dataset 3 (replicate 10000 (0::nat)) ! 52) = 16
   \<and> \<not> 3 dvd length (test_dataset 3 (replicate 10000 (0::nat)) ! 52)"
proof -
  have count: "length (test_dataset 3 (replicate 10000 (0::nat))) = 53"
    by (simp add: test_dataset_def length_batch GLOBAL_BATCH_SIZE_def BATCH_SIZE_PER_REPLICA_def)
  have full: "length (test_dataset 3 (replicate 10000 (0::nat)) ! 51) = 192"
    using count
    by (simp add: test_dataset_def length_nth_batch GLOBAL_BATCH_SIZE_def BATCH_SIZE_PER_REPLICA_def)
  have rest: "length (test_dataset 3 (replicate 10000 (0::nat)) ! 52) = 16"
    using count
    by (simp add: test_dataset_def length_nth_batch GLOBAL_BATCH_SIZE_def BATCH_SIZE_PER_REPLICA_def)
  show ?thesis
    by (simp add: count full rest) (simp add: GLOBAL_BATCH_SIZE_def BATCH_SIZE_PER_REPLICA_def)
qed


text \<open>
  C10, as the code has it. The global batch size is \<open>BATCH_SIZE_PER_REPLICA\<close> times the
  number of replicas in sync, hence always a multiple of it, with quotient 64. The test
  and the train dataset are cut into batches of that size, none empty, the last one
  holding what remains: every batch but the last holds 64 examples per replica, and the
  number of replicas divides the size of every batch exactly when it divides the number
  of examples.
\<close>

theorem global_batch_size_multiple:
  assumes "0 < num_replicas" and "\<forall>xs. mset (shuffle xs) = mset (xs :: 'a list)"
  shows "GLOBAL_BATCH_SIZE num_replicas = BATCH_SIZE_PER_REPLICA * num_replicas
    \<and> num_replicas dvd GLOBAL_BATCH_SIZE num_replicas
    \<and> GLOBAL_BATCH_SIZE num_replicas div num_replicas = BATCH_SIZE_PER_REPLICA
    \<and> (\<forall>t<length (test_dataset num_replicas examples).
          length (test_dataset num_replicas examples ! t)
            = min (GLOBAL_BATCH_SIZE num_replicas)
                (length examples - t * GLOBAL_BATCH_SIZE num_replicas)
          \<and> 0 < length (test_dataset num_replicas examples ! t))
    \<and> (\<forall>t. Suc t < length (test_dataset num_replicas examples)
          \<longrightarrow> length (test_dataset num_replicas examples ! t) = BATCH_SIZE_PER_REPLICA * num_replicas)
    \<and> ((\<forall>b\<in>set (test_dataset num_replicas examples). num_replicas dvd length b)
          \<longleftrightarrow> num_replicas dvd length examples)
    \<and> (\<forall>t. Suc t < length (train_dataset shuffle num_replicas (examples :: 'a list))
          \<longrightarrow> length (train_dataset shuffle num_replicas examples ! t)
              = BATCH_SIZE_PER_REPLICA * num_replicas)
    \<and> ((\<forall>b\<in>set (train_dataset shuffle num_replicas examples). num_replicas dvd length b)
          \<longleftrightarrow> num_replicas dvd length examples)"
proof -
  let ?G = "GLOBAL_BATCH_SIZE num_replicas"
  have pos: "0 < ?G"
    using assms(1) by (rule GLOBAL_BATCH_SIZE_positive)
  have product: "?G = BATCH_SIZE_PER_REPLICA * num_replicas"
    by (simp add: GLOBAL_BATCH_SIZE_def)
  have multiple: "num_replicas dvd ?G"
    by (simp add: GLOBAL_BATCH_SIZE_def)
  have quotient: "?G div num_replicas = BATCH_SIZE_PER_REPLICA"
    using assms(1) by (simp add: GLOBAL_BATCH_SIZE_def)
  have sizes: "\<forall>t<length (test_dataset num_replicas examples).
          length (test_dataset num_replicas examples ! t) = min ?G (length examples - t * ?G)
          \<and> 0 < length (test_dataset num_replicas examples ! t)"
    using pos by (simp add: test_dataset_def length_nth_batch batch_index_inside)
  have full_test: "\<forall>t. Suc t < length (test_dataset num_replicas examples)
          \<longrightarrow> length (test_dataset num_replicas examples ! t) = BATCH_SIZE_PER_REPLICA * num_replicas"
    using pos by (simp add: test_dataset_def full_batch product [symmetric])
  have even_test: "(\<forall>b\<in>set (test_dataset num_replicas examples). num_replicas dvd length b)
          \<longleftrightarrow> num_replicas dvd length examples"
    unfolding test_dataset_def using pos multiple by (rule batches_divisible)
  have full_train: "\<forall>t. Suc t < length (train_dataset shuffle num_replicas examples)
          \<longrightarrow> length (train_dataset shuffle num_replicas examples ! t)
              = BATCH_SIZE_PER_REPLICA * num_replicas"
    using pos by (simp add: train_dataset_def full_batch product [symmetric])
  have "(\<forall>b\<in>set (train_dataset shuffle num_replicas examples). num_replicas dvd length b)
          \<longleftrightarrow> num_replicas dvd length (shuffle examples)"
    unfolding train_dataset_def using pos multiple by (rule batches_divisible)
  then have even_train: "(\<forall>b\<in>set (train_dataset shuffle num_replicas examples). num_replicas dvd length b)
          \<longleftrightarrow> num_replicas dvd length examples"
    by (simp only: shuffle_length [OF assms(2)])
  show ?thesis
    using product multiple quotient sizes full_test even_test full_train even_train
    by blast
qed

theorem global_batch_size_multiple_witness:
  "GLOBAL_BATCH_SIZE 2 = 128
   \<and> GLOBAL_BATCH_SIZE 2 div 2 = BATCH_SIZE_PER_REPLICA
   \<and> length (test_dataset 2 (replicate 10000 (0::nat))) = 79
   \<and> length (test_dataset 2 (replicate 10000 (0::nat)) ! 0) = 128
   \<and> length (test_dataset 2 (replicate 10000 (0::nat)) ! 78) = 16
   \<and> list_all (\<lambda>b. 2 dvd length b) (test_dataset 2 (replicate 10000 (0::nat)))
   \<and> list_all (\<lambda>b. 2 dvd length b) (train_dataset rev 2 (replicate 10000 (0::nat)))"
proof -
  have two: "(0::nat) < 2"
    by simp
  have shuffle: "\<forall>xs. mset (rev xs) = mset (xs :: nat list)"
    by simp
  have count: "length (test_dataset 2 (replicate 10000 (0::nat))) = 79"
    by (simp add: test_dataset_def length_batch GLOBAL_BATCH_SIZE_def BATCH_SIZE_PER_REPLICA_def)
  note all = global_batch_size_multiple [OF two shuffle, of "replicate 10000 (0::nat)"]
  have first: "length (test_dataset 2 (replicate 10000 (0::nat)) ! 0) = 128"
    using all count by (simp add: BATCH_SIZE_PER_REPLICA_def)
  have last: "length (test_dataset 2 (replicate 10000 (0::nat)) ! 78) = 16"
    using all count by (simp add: GLOBAL_BATCH_SIZE_def BATCH_SIZE_PER_REPLICA_def)
  have "list_all (\<lambda>b. 2 dvd length b) (test_dataset 2 (replicate 10000 (0::nat)))"
    and "list_all (\<lambda>b. 2 dvd length b) (train_dataset rev 2 (replicate 10000 (0::nat)))"
    using all by (simp_all add: list_all_iff)
  with count first last show ?thesis
    by (simp add: GLOBAL_BATCH_SIZE_def BATCH_SIZE_PER_REPLICA_def)
qed

section \<open>The divisor of the scaled loss\<close>

lemma tfloat_times_reciprocal: "0 < n \<Longrightarrow> x * Fin (1 / real n) = x / cast n"
  by (cases x) (simp_all add: cast_def)

lemma train_step_loss:
  "fst (train_step env G s inputs)
     = compute_average_loss (per_example_losses env (trainable_variables s) inputs) G"
  by (simp add: train_step_def case_prod_unfold Let_def forward_backward_loss)

lemma model_fn_loss_average:
  "model_fn_loss env w (map fst inputs) (map snd inputs)
     = compute_average_loss (per_example_losses env w inputs) BATCH_SIZE"
proof -
  have "0 < BATCH_SIZE"
    by (simp add: BATCH_SIZE_def)
  then show ?thesis
    by (simp add: model_fn_loss_def per_example_losses_def compute_average_loss_def Let_def
        tfloat_times_reciprocal)
qed

text \<open>
  C1, as the code has it. In the custom training loop the loss of a replica's step is the
  sum of the unreduced per-example losses divided by \<^verbatim>\<open>GLOBAL_BATCH_SIZE\<close>, whatever the
  size of the replica's sub-batch. In the Estimator's \<^verbatim>\<open>model_fn\<close> the sum is multiplied by
  \<^verbatim>\<open>1. / BATCH_SIZE\<close>, that is divided by 64, the size \<^verbatim>\<open>input_fn\<close> batches each input
  pipeline with.
\<close>

theorem scaled_loss_divisor:
  "fst (train_step env G s inputs)
      = reduce_sum (per_example_losses env (trainable_variables s) inputs) / cast G
   \<and> fst (forward_backward env G w inputs) = reduce_sum (per_example_losses env w inputs) / cast G
   \<and> model_fn_loss env w (map fst inputs) (map snd inputs)
      = reduce_sum (per_example_losses env w inputs) / cast BATCH_SIZE
   \<and> BATCH_SIZE = 64"
  by (simp add: train_step_loss forward_backward_loss model_fn_loss_average
      compute_average_loss_def BATCH_SIZE_def)

lemma sum_list_replicate_Fin: "sum_list (replicate n (Fin a)) = Fin (real n * a)"
  by (induction n) (simp_all add: zero_tfloat_def algebra_simps)

text \<open>
  C1 as stated fails for \<^verbatim>\<open>model_fn\<close>. With two input pipelines over 128 examples, each
  pipeline delivers one batch of 64 examples, so the step processes 128; every per-example
  loss being 1, \<^verbatim>\<open>model_fn\<close> computes the loss 1 on a replica, the sum 64 divided by the
  64 examples of its own sub-batch, where the sum divided by the 128 examples of the
  global batch is 1/2.
\<close>

theorem model_fn_divides_by_local_batch_size:
  "length (input_fn (\<lambda>xs. xs) \<lparr>train = replicate 128 ([Fin 0], 0::nat), test = []\<rparr> TRAIN
      (Some \<lparr>num_input_pipelines = 2, input_pipeline_id = 0\<rparr>)) = 1
   \<and> length (input_fn (\<lambda>xs. xs) \<lparr>train = replicate 128 ([Fin 0], 0::nat), test = []\<rparr> TRAIN
      (Some \<lparr>num_input_pipelines = 2, input_pipeline_id = 1\<rparr>)) = 1
   \<and> length (input_fn (\<lambda>xs. xs) \<lparr>train = replicate 128 ([Fin 0], 0::nat), test = []\<rparr> TRAIN
      (Some \<lparr>num_input_pipelines = 2, input_pipeline_id = 0\<rparr>) ! 0) = 64
   \<and> length (input_fn (\<lambda>xs. xs) \<lparr>train = replicate 128 ([Fin 0], 0::nat), test = []\<rparr> TRAIN
      (Some \<lparr>num_input_pipelines = 2, input_pipeline_id = 1\<rparr>) ! 0) = 64
   \<and> model_fn_loss
        (\<lparr>forward = (\<lambda>w x. ()), per_example_loss = (\<lambda>y z. Fin 1), tape_gradient = (\<lambda>f w. w),
         apply_gradients = (\<lambda>g c. c), predicted_label = (\<lambda>z. 0)\<rparr>
         :: (tfloat list, nat, unit, unit) collaborators) []
        (map fst (input_fn (\<lambda>xs. xs) \<lparr>train = replicate 128 ([Fin 0], 0::nat), test = []\<rparr> TRAIN
          (Some \<lparr>num_input_pipelines = 2, input_pipeline_id = 0\<rparr>) ! 0))
        (map snd (input_fn (\<lambda>xs. xs) \<lparr>train = replicate 128 ([Fin 0], 0::nat), test = []\<rparr> TRAIN
          (Some \<lparr>num_input_pipelines = 2, input_pipeline_id = 0\<rparr>) ! 0))
      = Fin 1
   \<and> reduce_sum (per_example_losses
        (\<lparr>forward = (\<lambda>w x. ()), per_example_loss = (\<lambda>y z. Fin 1), tape_gradient = (\<lambda>f w. w),
         apply_gradients = (\<lambda>g c. c), predicted_label = (\<lambda>z. 0)\<rparr>
         :: (tfloat list, nat, unit, unit) collaborators) []
        (input_fn (\<lambda>xs. xs) \<lparr>train = replicate 128 ([Fin 0], 0::nat), test = []\<rparr> TRAIN
          (Some \<lparr>num_input_pipelines = 2, input_pipeline_id = 0\<rparr>) ! 0)) / cast (64 + 64)
      = Fin (1 / 2)"
proof -
  let ?ds = "\<lparr>train = replicate 128 ([Fin 0], 0::nat), test = []\<rparr>"
  let ?P = "\<lambda>i. input_fn (\<lambda>xs. xs) ?ds TRAIN
      (Some \<lparr>num_input_pipelines = 2, input_pipeline_id = i\<rparr>)"
  let ?env = "\<lparr>forward = (\<lambda>w x. ()), per_example_loss = (\<lambda>y z. Fin 1), tape_gradient = (\<lambda>f w. w),
         apply_gradients = (\<lambda>g c. c), predicted_label = (\<lambda>z. 0::nat)\<rparr>
         :: (tfloat list, nat, unit, unit) collaborators"
  have count0: "length (?P 0) = 1"
    by (simp add: sharded_batches_identity length_batch length_shard BATCH_SIZE_def)
  have count1: "length (?P 1) = 1"
    by (simp add: sharded_batches_identity length_batch length_shard BATCH_SIZE_def)
  have len0: "length (?P 0 ! 0) = 64"
    using count0 by (simp add: sharded_batches_identity length_nth_batch length_shard BATCH_SIZE_def)
  have len1: "length (?P 1 ! 0) = 64"
    using count1 by (simp add: sharded_batches_identity length_nth_batch length_shard BATCH_SIZE_def)
  have "per_example_losses ?env [] (?P 0 ! 0) = replicate (length (?P 0 ! 0)) (Fin 1)"
    by (simp only: per_example_losses_map) (simp add: map_replicate_const case_prod_unfold)
  then have losses: "per_example_losses ?env [] (?P 0 ! 0) = replicate 64 (Fin 1)"
    by (simp only: len0)
  have local_size: "compute_average_loss (replicate 64 (Fin 1)) BATCH_SIZE = Fin 1"
    by (simp add: compute_average_loss_def reduce_sum_def sum_list_replicate_Fin cast_def BATCH_SIZE_def)
  have global_size: "reduce_sum (replicate 64 (Fin 1)) / cast (64 + 64) = Fin (1 / 2)"
    by (simp add: reduce_sum_def sum_list_replicate_Fin cast_def)
  have "model_fn_loss ?env [] (map fst (?P 0 ! 0)) (map snd (?P 0 ! 0)) = Fin 1"
    by (simp only: model_fn_loss_average losses local_size)
  moreover have "reduce_sum (per_example_losses ?env [] (?P 0 ! 0)) / cast (64 + 64) = Fin (1 / 2)"
    by (simp only: losses global_size)
  ultimately show ?thesis
    using count0 count1 len0 len1 by blast
qed

section \<open>The effects of the training step\<close>

lemma train_step_variables:
  "(trainable_variables (snd (train_step env G s inputs)), optimizer (snd (train_step env G s inputs)))
     = apply_gradients env (fst (snd (forward_backward env G (trainable_variables s) inputs)))
         (trainable_variables s, optimizer s)"
  by (simp add: train_step_def Let_def case_prod_unfold)

lemma length_model: "length (model env w images) = length images"
  by (simp add: model_def)

text \<open>
  C4, as the code has it. \<^verbatim>\<open>train_step\<close> returns the scaled loss alone, and it writes to
  the shared state: the variables and the optimizer's state become what
  \<^verbatim>\<open>optimizer.apply_gradients\<close> makes of the gradients, and the training accuracy takes
  the examples of the sub-batch, its count growing by their number.
\<close>

theorem train_step_effects:
  "fst (train_step env G s inputs)
      = compute_loss env G (map snd inputs) (model env (trainable_variables s) (map fst inputs))
   \<and> (trainable_variables (snd (train_step env G s inputs)), optimizer (snd (train_step env G s inputs)))
      = apply_gradients env
          (tape_gradient env (\<lambda>v. compute_loss env G (map snd inputs) (model env v (map fst inputs)))
             (trainable_variables s))
          (trainable_variables s, optimizer s)
   \<and> train_accuracy (snd (train_step env G s inputs))
      = update_state env (train_accuracy s) (map snd inputs)
          (model env (trainable_variables s) (map fst inputs))
   \<and> count (train_accuracy (snd (train_step env G s inputs)))
      = count (train_accuracy s) + length inputs"
  by (simp add: train_step_def forward_backward_def Let_def case_prod_unfold update_state_def
      length_model)

lemma linear_model_step:
  "train_step linear_model 2
      \<lparr>trainable_variables = [Fin 5, Fin 0], optimizer = 0, train_accuracy = \<lparr>total = 0, count = 0\<rparr>\<rparr>
      [(Fin 1, Fin 3), (Fin 2, Fin 4)]
   = (Fin 20, \<lparr>trainable_variables = [Fin (18 / 5), Fin (- (4 / 5))], optimizer = 1,
        train_accuracy = \<lparr>total = 0, count = 2\<rparr>\<rparr>)"
  by (simp add: train_step_def forward_backward_def compute_loss_def compute_average_loss_def
      loss_object_def model_def reduce_sum_def cast_def update_state_def linear_model_def
      central_difference_def zero_tfloat_def Let_def)


text \<open>
  C4 as stated fails. On the linear model with \<open>W = 5\<close>, \<open>b = 0\<close>, the examples (1, 3) and
  (2, 4) and a global batch size of 2, \<^verbatim>\<open>train_step\<close> returns the loss 20 and leaves
  \<open>W = 3.6\<close>, \<open>b = -0.8\<close>, one update counted by the optimizer and two examples counted by
  the accuracy metric.
\<close>

theorem train_step_updates_shared_state:
  "fst (train_step linear_model 2
      \<lparr>trainable_variables = [Fin 5, Fin 0], optimizer = 0, train_accuracy = \<lparr>total = 0, count = 0\<rparr>\<rparr>
      [(Fin 1, Fin 3), (Fin 2, Fin 4)]) = Fin 20
   \<and> snd (train_step linear_model 2
      \<lparr>trainable_variables = [Fin 5, Fin 0], optimizer = 0, train_accuracy = \<lparr>total = 0, count = 0\<rparr>\<rparr>
      [(Fin 1, Fin 3), (Fin 2, Fin 4)])
     = \<lparr>trainable_variables = [Fin (18 / 5), Fin (- (4 / 5))], optimizer = 1,
        train_accuracy = \<lparr>total = 0, count = 2\<rparr>\<rparr>
   \<and> snd (train_step linear_model 2
      \<lparr>trainable_variables = [Fin 5, Fin 0], optimizer = 0, train_accuracy = \<lparr>total = 0, count = 0\<rparr>\<rparr>
      [(Fin 1, Fin 3), (Fin 2, Fin 4)])
     \<noteq> \<lparr>trainable_variables = [Fin 5, Fin 0], optimizer = 0, train_accuracy = \<lparr>total = 0, count = 0\<rparr>\<rparr>"
  by (simp add: linear_model_step)

section \<open>NaN in a step\<close>

lemma sum_list_NaN: "NaN \<in> set xs \<Longrightarrow> sum_list xs = NaN"
proof (induction xs)
  case Nil
  then show ?case by simp
next
  case (Cons x xs)
  then show ?case by (cases x) auto
qed

lemma linear_model_nan_single_step:
  "train_step linear_model 2
      \<lparr>trainable_variables = [Fin 5, Fin 0], optimizer = 0, train_accuracy = \<lparr>total = 0, count = 0\<rparr>\<rparr>
      [(Fin 1, NaN), (Fin 2, Fin 4)]
   = (NaN, \<lparr>trainable_variables = [NaN, NaN], optimizer = 1,
        train_accuracy = \<lparr>total = 0, count = 2\<rparr>\<rparr>)"
  by (simp add: train_step_def forward_backward_def compute_loss_def compute_average_loss_def
      loss_object_def model_def reduce_sum_def cast_def update_state_def linear_model_def
      central_difference_def zero_tfloat_def Let_def)

lemma linear_model_nan_step:
  "distributed_train_step linear_model 2
      \<lparr>replicas = [([Fin 5, Fin 0], 0), ([Fin 5, Fin 0], 0)], accuracy = \<lparr>total = 0, count = 0\<rparr>\<rparr>
      [[(Fin 1, NaN)], [(Fin 2, Fin 4)]]
   = (NaN, \<lparr>replicas = [([NaN, NaN], 1), ([NaN, NaN], 1)], accuracy = \<lparr>total = 0, count = 2\<rparr>\<rparr>)"
  by (simp add: distributed_train_step_def experimental_run_v2_def strategy_reduce_SUM_def
      forward_backward_def compute_loss_def compute_average_loss_def
      loss_object_def model_def reduce_sum_def cast_def update_state_def linear_model_def
      central_difference_def zero_tfloat_def Let_def)

lemma linear_model_nan_losses:
  "fst (experimental_run_v2 linear_model 2
      \<lparr>replicas = [([Fin 5, Fin 0], 0), ([Fin 5, Fin 0], 0)], accuracy = \<lparr>total = 0, count = 0\<rparr>\<rparr>
      [[(Fin 1, NaN)], [(Fin 2, Fin 4)]]) = [NaN, Fin 18]"
  by (simp add: experimental_run_v2_def
      forward_backward_def compute_loss_def compute_average_loss_def
      loss_object_def model_def reduce_sum_def cast_def update_state_def linear_model_def
      central_difference_def zero_tfloat_def Let_def)

text \<open>
  C5 as stated fails. On the linear model with \<open>W = 5\<close>, \<open>b = 0\<close> and a NaN label in the
  sub-batch, \<^verbatim>\<open>train_step\<close> returns the loss NaN as an ordinary value and has overwritten
  both variables with NaN. With two replicas and the NaN in the first replica's sub-batch,
  the distributed step returns NaN and the variables of both replicas are NaN.
\<close>

theorem nan_gradient_is_applied:
  "train_step linear_model 2
      \<lparr>trainable_variables = [Fin 5, Fin 0], optimizer = 0, train_accuracy = \<lparr>total = 0, count = 0\<rparr>\<rparr>
      [(Fin 1, NaN), (Fin 2, Fin 4)]
     = (NaN, \<lparr>trainable_variables = [NaN, NaN], optimizer = 1,
          train_accuracy = \<lparr>total = 0, count = 2\<rparr>\<rparr>)
   \<and> fst (distributed_train_step linear_model 2
      \<lparr>replicas = [([Fin 5, Fin 0], 0), ([Fin 5, Fin 0], 0)], accuracy = \<lparr>total = 0, count = 0\<rparr>\<rparr>
      [[(Fin 1, NaN)], [(Fin 2, Fin 4)]]) = NaN
   \<and> replicas (snd (distributed_train_step linear_model 2
      \<lparr>replicas = [([Fin 5, Fin 0], 0), ([Fin 5, Fin 0], 0)], accuracy = \<lparr>total = 0, count = 0\<rparr>\<rparr>
      [[(Fin 1, NaN)], [(Fin 2, Fin 4)]])) = [([NaN, NaN], 1), ([NaN, NaN], 1)]
   \<and> replicas (snd (distributed_train_step linear_model 2
      \<lparr>replicas = [([Fin 5, Fin 0], 0), ([Fin 5, Fin 0], 0)], accuracy = \<lparr>total = 0, count = 0\<rparr>\<rparr>
      [[(Fin 1, NaN)], [(Fin 2, Fin 4)]])) \<noteq> [([Fin 5, Fin 0], 0), ([Fin 5, Fin 0], 0)]"
  by (simp add: linear_model_nan_step linear_model_nan_single_step)

text \<open>
  C5, as the code has it. The step has no check for NaN: \<^verbatim>\<open>train_step\<close> hands the gradients
  to the optimizer whatever the loss and the gradients are, under a strategy every replica
  applies the summed gradient whatever its value, and \<^verbatim>\<open>distributed_train_step\<close> returns
  the sum of the replicas' losses, which is NaN as soon as one replica's loss is NaN.
\<close>

theorem no_nan_check:
  "(trainable_variables (snd (train_step env G s x)), optimizer (snd (train_step env G s x)))
     = apply_gradients env (fst (snd (forward_backward env G (trainable_variables s) x)))
         (trainable_variables s, optimizer s)
   \<and> replicas (snd (distributed_train_step env G ms inputs))
     = map (apply_gradients env
         (all_reduce_sum (map (\<lambda>((w, slots), x). fst (snd (forward_backward env G w x)))
            (zip (replicas ms) inputs))))
       (replicas ms)
   \<and> (NaN \<in> set (fst (experimental_run_v2 env G ms inputs))
        \<longrightarrow> fst (distributed_train_step env G ms inputs) = NaN)"
  by (simp add: train_step_variables)
    (simp add: distributed_train_step_def experimental_run_v2_def strategy_reduce_SUM_def
      Let_def case_prod_unfold comp_def sum_list_NaN)

theorem no_nan_check_witness:
  "NaN \<in> set (fst (experimental_run_v2 linear_model 2
      \<lparr>replicas = [([Fin 5, Fin 0], 0), ([Fin 5, Fin 0], 0)], accuracy = \<lparr>total = 0, count = 0\<rparr>\<rparr>
      [[(Fin 1, NaN)], [(Fin 2, Fin 4)]]))
   \<and> fst (distributed_train_step linear_model 2
      \<lparr>replicas = [([Fin 5, Fin 0], 0), ([Fin 5, Fin 0], 0)], accuracy = \<lparr>total = 0, count = 0\<rparr>\<rparr>
      [[(Fin 1, NaN)], [(Fin 2, Fin 4)]]) = NaN"
proof -
  have member: "NaN \<in> set (fst (experimental_run_v2 linear_model 2
      \<lparr>replicas = [([Fin 5, Fin 0], 0), ([Fin 5, Fin 0], 0)], accuracy = \<lparr>total = 0, count = 0\<rparr>\<rparr>
      [[(Fin 1, NaN)], [(Fin 2, Fin 4)]]))"
    by (simp add: linear_model_nan_losses)
  with no_nan_check [of linear_model 2 _ _
      "\<lparr>replicas = [([Fin 5, Fin 0], 0), ([Fin 5, Fin 0], 0)], accuracy = \<lparr>total = 0, count = 0\<rparr>\<rparr>"
      "[[(Fin 1, NaN)], [(Fin 2, Fin 4)]]"]
  show ?thesis by blast
qed

section \<open>Several replicas against one\<close>

lemma forward_backward_gradients:
  "fst (snd (forward_backward env G w inputs))
     = tape_gradient env (\<lambda>v. compute_average_loss (per_example_losses env v inputs) G) w"
  by (simp add: forward_backward_def compute_loss_def per_example_losses_def Let_def)

lemma average_loss_append:
  "compute_average_loss (per_example_losses env v (p @ q)) G
     = compute_average_loss (per_example_losses env v p) G
       + compute_average_loss (per_example_losses env v q) G"
  by (simp add: per_example_losses_map compute_average_loss_def reduce_sum_def
      tfloat_add_divide_distrib)

lemma all_reduce_sum_gradients:
  assumes additive: "\<forall>f g v. tape_gradient env (\<lambda>u. f u + g u) v
      = map2 (+) (tape_gradient env f v) (tape_gradient env g v)"
    and "parts \<noteq> []"
  shows "all_reduce_sum (map (\<lambda>p. fst (snd (forward_backward env G w p))) parts)
     = fst (snd (forward_backward env G w (concat parts)))"
  using assms(2)
proof (induction parts rule: list_nonempty_induct)
  case (single p)
  then show ?case by simp
next
  case (cons p ps)
  obtain q qs where ps: "ps = q # qs"
    using cons.hyps by (cases ps) auto
  have "all_reduce_sum (map (\<lambda>p. fst (snd (forward_backward env G w p))) (p # ps))
      = map2 (+) (fst (snd (forward_backward env G w p)))
          (all_reduce_sum (map (\<lambda>p. fst (snd (forward_backward env G w p))) ps))"
    by (simp add: ps)
  also have "\<dots> = map2 (+) (fst (snd (forward_backward env G w p)))
          (fst (snd (forward_backward env G w (concat ps))))"
    by (simp only: cons.IH)
  also have "\<dots> = tape_gradient env
        (\<lambda>u. compute_average_loss (per_example_losses env u p) G
             + compute_average_loss (per_example_losses env u (concat ps)) G) w"
    using additive by (simp only: forward_backward_gradients)
  also have "\<dots> = fst (snd (forward_backward env G w (concat (p # ps))))"
    by (simp add: forward_backward_gradients average_loss_append)
  finally show ?case .
qed

lemma run_replicas:
  assumes "replicas ms = replicate (length parts) (w, slots)"
  shows "replicas (snd (distributed_train_step env G ms parts))
     = replicate (length parts)
         (apply_gradients env
            (all_reduce_sum (map (\<lambda>p. fst (snd (forward_backward env G w p))) parts)) (w, slots))"
proof -
  have "map2 (\<lambda>(w, slots) inputs. forward_backward env G w inputs) (replicas ms) parts
      = map (forward_backward env G w) parts"
    by (simp add: assms map2_replicate_left)
  then show ?thesis
    by (simp add: distributed_train_step_def experimental_run_v2_def Let_def case_prod_unfold
        assms comp_def)
qed

lemma single_replica_step:
  "distributed_train_step env G \<lparr>replicas = [(w, slots)], accuracy = acc\<rparr> [inputs]
     = (fst (train_step env G \<lparr>trainable_variables = w, optimizer = slots, train_accuracy = acc\<rparr> inputs),
        \<lparr>replicas = [(trainable_variables (snd (train_step env G
                          \<lparr>trainable_variables = w, optimizer = slots, train_accuracy = acc\<rparr> inputs)),
                      optimizer (snd (train_step env G
                          \<lparr>trainable_variables = w, optimizer = slots, train_accuracy = acc\<rparr> inputs)))],
         accuracy = train_accuracy (snd (train_step env G
                          \<lparr>trainable_variables = w, optimizer = slots, train_accuracy = acc\<rparr> inputs))\<rparr>)"
  by (simp add: distributed_train_step_def experimental_run_v2_def strategy_reduce_SUM_def
      train_step_def Let_def case_prod_unfold)

lemma map2_map_map: "map2 h (map a xs) (map b xs) = map (\<lambda>x. h (a x) (b x)) xs"
  by (induction xs) simp_all

lemma tfloat_difference_quotient:
  "((a + b) - (c + d)) / e = (a - c) / e + (b - d) / (e :: tfloat)"
  by (cases a; cases b; cases c; cases d; cases e) (simp_all add: field_simps)

lemma central_difference_additive:
  "central_difference (\<lambda>u. f u + g u) v = map2 (+) (central_difference f v) (central_difference g v)"
  by (simp add: central_difference_def map2_map_map tfloat_difference_quotient)

lemma linear_model_additive:
  "\<forall>f g v. tape_gradient linear_model (\<lambda>u. f u + g u) v
      = map2 (+) (tape_gradient linear_model f v) (tape_gradient linear_model g v)"
  by (simp add: linear_model_def central_difference_additive)

text \<open>
  C2. Let differentiation be additive (the gradient of a sum of two losses is the sum of
  their gradients). Then for every global batch size and every division of a batch into
  sub-batches, one per replica, the step on mirrored replicas leaves on every replica
  exactly the variables and optimizer state that one replica reaches on the whole batch,
  which are those of \<^verbatim>\<open>train_step\<close> run without a strategy; and with one replica the
  distributed step is \<^verbatim>\<open>train_step\<close> itself, loss, variables, optimizer state and metric.
  Scalars are exact, so the equality is exact.
\<close>

theorem mirrored_step_equals_single_replica:
  assumes "\<forall>f g v. tape_gradient env (\<lambda>u. f u + g u) v
      = map2 (+) (tape_gradient env f v) (tape_gradient env g v)"
    and "parts \<noteq> []"
    and "replicas ms = replicate (length parts) (w, slots)"
  shows "replicas (snd (distributed_train_step env G ms parts))
      = replicate (length parts)
          (trainable_variables (snd (train_step env G
              \<lparr>trainable_variables = w, optimizer = slots, train_accuracy = acc\<rparr> (concat parts))),
           optimizer (snd (train_step env G
              \<lparr>trainable_variables = w, optimizer = slots, train_accuracy = acc\<rparr> (concat parts))))
    \<and> replicas (snd (distributed_train_step env G ms parts))
      = replicate (length parts)
          (hd (replicas (snd (distributed_train_step env G
              \<lparr>replicas = [(w, slots)], accuracy = acc\<rparr> [concat parts]))))
    \<and> distributed_train_step env G \<lparr>replicas = [(w, slots)], accuracy = acc\<rparr> [inputs]
      = (fst (train_step env G \<lparr>trainable_variables = w, optimizer = slots, train_accuracy = acc\<rparr> inputs),
         \<lparr>replicas = [(trainable_variables (snd (train_step env G
                          \<lparr>trainable_variables = w, optimizer = slots, train_accuracy = acc\<rparr> inputs)),
                       optimizer (snd (train_step env G
                          \<lparr>trainable_variables = w, optimizer = slots, train_accuracy = acc\<rparr> inputs)))],
          accuracy = train_accuracy (snd (train_step env G
                          \<lparr>trainable_variables = w, optimizer = slots, train_accuracy = acc\<rparr> inputs))\<rparr>)"
proof -
  let ?s = "\<lparr>trainable_variables = w, optimizer = slots, train_accuracy = acc\<rparr>"
  have "replicas (snd (distributed_train_step env G ms parts))
      = replicate (length parts)
          (apply_gradients env (fst (snd (forward_backward env G w (concat parts)))) (w, slots))"
    using assms(3) all_reduce_sum_gradients [OF assms(1,2), of G w]
    by (simp only: run_replicas)
  also have "apply_gradients env (fst (snd (forward_backward env G w (concat parts)))) (w, slots)
      = (trainable_variables (snd (train_step env G ?s (concat parts))),
         optimizer (snd (train_step env G ?s (concat parts))))"
    by (simp add: train_step_variables)
  finally have many: "replicas (snd (distributed_train_step env G ms parts))
      = replicate (length parts)
          (trainable_variables (snd (train_step env G ?s (concat parts))),
           optimizer (snd (train_step env G ?s (concat parts))))" .
  have one: "hd (replicas (snd (distributed_train_step env G
              \<lparr>replicas = [(w, slots)], accuracy = acc\<rparr> [concat parts])))
      = (trainable_variables (snd (train_step env G ?s (concat parts))),
         optimizer (snd (train_step env G ?s (concat parts))))"
    by (simp add: single_replica_step)
  show ?thesis
    using many one single_replica_step [of env G w slots acc inputs] by simp
qed


theorem mirrored_step_equals_single_replica_witness:
  "replicas (snd (distributed_train_step linear_model 2
      \<lparr>replicas = [([Fin 5, Fin 0], 0), ([Fin 5, Fin 0], 0)], accuracy = \<lparr>total = 0, count = 0\<rparr>\<rparr>
      [[(Fin 1, Fin 3)], [(Fin 2, Fin 4)]]))
    = [([Fin (18 / 5), Fin (- (4 / 5))], 1), ([Fin (18 / 5), Fin (- (4 / 5))], 1)]
   \<and> snd (train_step linear_model 2
      \<lparr>trainable_variables = [Fin 5, Fin 0], optimizer = 0, train_accuracy = \<lparr>total = 0, count = 0\<rparr>\<rparr>
      [(Fin 1, Fin 3), (Fin 2, Fin 4)])
    = \<lparr>trainable_variables = [Fin (18 / 5), Fin (- (4 / 5))], optimizer = 1,
        train_accuracy = \<lparr>total = 0, count = 2\<rparr>\<rparr>"
proof -
  have nonempty: "[[(Fin 1, Fin 3)], [(Fin 2, Fin 4 :: tfloat)]] \<noteq> []"
    by simp
  have start: "replicas \<lparr>replicas = [([Fin 5, Fin 0], 0), ([Fin 5, Fin 0], 0)],
        accuracy = \<lparr>total = 0, count = 0\<rparr>\<rparr>
      = replicate (length [[(Fin 1, Fin 3)], [(Fin 2, Fin 4 :: tfloat)]]) ([Fin 5, Fin 0], 0::nat)"
    by simp
  show ?thesis
    using mirrored_step_equals_single_replica [OF linear_model_additive nonempty start,
        of 2 "\<lparr>total = 0, count = 0\<rparr>"]
    by (simp add: linear_model_step)
qed


section \<open>Mirrored variables\<close>

lemma mirrored_map: "mirrored ms \<Longrightarrow> mirrored (ms\<lparr>replicas := map f (replicas ms), accuracy := acc\<rparr>)"
  by (auto simp: mirrored_def)

lemma mirrored_step:
  "mirrored ms \<Longrightarrow> mirrored (snd (distributed_train_step env G ms inputs))"
  by (simp add: distributed_train_step_def experimental_run_v2_def Let_def case_prod_unfold
      mirrored_map)

lemma length_replicas_step:
  "length (replicas (snd (distributed_train_step env G ms inputs))) = length (replicas ms)"
  by (simp add: distributed_train_step_def experimental_run_v2_def Let_def case_prod_unfold)

lemma mirrored_train_loop:
  "mirrored ms \<Longrightarrow> mirrored (fst (train_loop env G (ms, total_loss, num_batches) batches))"
proof (induction batches arbitrary: ms total_loss num_batches)
  case Nil
  then show ?case by simp
next
  case (Cons x xs)
  have "mirrored (snd (distributed_train_step env G ms x))"
    using Cons.prems by (rule mirrored_step)
  then show ?case
    by (simp add: case_prod_unfold Let_def Cons.IH)
qed

lemma linear_model_two_replicas_step:
  "distributed_train_step linear_model 2
      \<lparr>replicas = [([Fin 5, Fin 0], 0), ([Fin 5, Fin 0], 0)], accuracy = \<lparr>total = 0, count = 0\<rparr>\<rparr>
      [[(Fin 1, Fin 3)], [(Fin 2, Fin 4)]]
   = (Fin 20, \<lparr>replicas = [([Fin (18 / 5), Fin (- (4 / 5))], 1), ([Fin (18 / 5), Fin (- (4 / 5))], 1)],
        accuracy = \<lparr>total = 0, count = 2\<rparr>\<rparr>)"
  by (simp add: distributed_train_step_def experimental_run_v2_def strategy_reduce_SUM_def
      forward_backward_def compute_loss_def compute_average_loss_def
      loss_object_def model_def reduce_sum_def cast_def update_state_def linear_model_def
      central_difference_def zero_tfloat_def Let_def)

text \<open>
  C7. When all replicas hold the same variables and optimizer state before a step, they
  all hold the same ones after it, and after every step of the training loop: each
  replica applies the optimizer to the one summed gradient and to its own copy, and no
  value is sent from one replica to another.
\<close>

theorem mirroring_preserved:
  assumes "mirrored ms"
  shows "mirrored (snd (distributed_train_step env G ms inputs))
    \<and> mirrored (fst (train_loop env G (ms, total_loss, num_batches) batches))
    \<and> replicas (snd (distributed_train_step env G ms inputs))
        = map (apply_gradients env
              (all_reduce_sum (map (\<lambda>((w, slots), x). fst (snd (forward_backward env G w x)))
                 (zip (replicas ms) inputs))))
            (replicas ms)"
  using assms
  by (simp add: mirrored_step mirrored_train_loop)
    (simp add: distributed_train_step_def experimental_run_v2_def Let_def case_prod_unfold comp_def)

theorem mirroring_preserved_witness:
  "mirrored \<lparr>replicas = [([Fin 5, Fin 0], 0::nat), ([Fin 5, Fin 0], 0)], accuracy = \<lparr>total = 0, count = 0\<rparr>\<rparr>
   \<and> mirrored (snd (distributed_train_step linear_model 2
      \<lparr>replicas = [([Fin 5, Fin 0], 0), ([Fin 5, Fin 0], 0)], accuracy = \<lparr>total = 0, count = 0\<rparr>\<rparr>
      [[(Fin 1, Fin 3)], [(Fin 2, Fin 4)]]))
   \<and> replicas (snd (distributed_train_step linear_model 2
      \<lparr>replicas = [([Fin 5, Fin 0], 0), ([Fin 5, Fin 0], 0)], accuracy = \<lparr>total = 0, count = 0\<rparr>\<rparr>
      [[(Fin 1, Fin 3)], [(Fin 2, Fin 4)]]))
    = [([Fin (18 / 5), Fin (- (4 / 5))], 1), ([Fin (18 / 5), Fin (- (4 / 5))], 1)]"
proof -
  have start: "mirrored \<lparr>replicas = [([Fin 5, Fin 0], 0::nat), ([Fin 5, Fin 0], 0)],
      accuracy = \<lparr>total = 0, count = 0\<rparr>\<rparr>"
    by (simp add: mirrored_def)
  from mirroring_preserved [OF start, of linear_model 2 "[[(Fin 1, Fin 3)], [(Fin 2, Fin 4)]]"]
  have "mirrored (snd (distributed_train_step linear_model 2
      \<lparr>replicas = [([Fin 5, Fin 0], 0), ([Fin 5, Fin 0], 0)], accuracy = \<lparr>total = 0, count = 0\<rparr>\<rparr>
      [[(Fin 1, Fin 3)], [(Fin 2, Fin 4)]]))"
    by blast
  with start show ?thesis
    by (simp add: linear_model_two_replicas_step)
qed


section \<open>Saving and restoring\<close>

lemma restore_latest_after_save:
  "checkpoint_restore (checkpoint_save dir s) (latest_checkpoint (checkpoint_save dir s)) target
     = Inr (target\<lparr>trainable_variables := trainable_variables s, optimizer := optimizer s\<rparr>)"
  by (simp add: checkpoint_restore_def checkpoint_save_def latest_checkpoint_def Let_def)

lemma load_after_save_weights:
  "load_weights (save_weights store path s) path target
     = Inr (target\<lparr>trainable_variables := trainable_variables s\<rparr>)"
  by (simp add: load_weights_def save_weights_def)

text \<open>
  C8. Restoring the latest checkpoint right after saving gives back the state that was
  saved: restored into the training state itself it changes nothing, and restored into any
  other model and optimizer it installs exactly the saved variables and optimizer state,
  so that one training step from there gives what one step without the round trip gives
  (the metric accumulator, which no checkpoint holds, being the same). Loading the
  weights a model saved restores exactly its variables.
\<close>

theorem checkpoint_round_trip:
  "checkpoint_restore (checkpoint_save dir s) (latest_checkpoint (checkpoint_save dir s)) s = Inr s
   \<and> (\<exists>r. checkpoint_restore (checkpoint_save dir s) (latest_checkpoint (checkpoint_save dir s)) target
          = Inr r
        \<and> trainable_variables r = trainable_variables s \<and> optimizer r = optimizer s
        \<and> (train_accuracy target = train_accuracy s
             \<longrightarrow> train_step env G r inputs = train_step env G s inputs))
   \<and> (\<exists>r. load_weights (save_weights store path s) path target = Inr r
        \<and> trainable_variables r = trainable_variables s
        \<and> (optimizer target = optimizer s \<and> train_accuracy target = train_accuracy s
             \<longrightarrow> train_step env G r inputs = train_step env G s inputs))"
proof -
  have restored: "train_step env G
        (target\<lparr>trainable_variables := trainable_variables s, optimizer := optimizer s\<rparr>) inputs
      = train_step env G s inputs"
    if "train_accuracy target = train_accuracy s"
  proof -
    have "target\<lparr>trainable_variables := trainable_variables s, optimizer := optimizer s\<rparr> = s"
      using that by simp
    then show ?thesis by (rule arg_cong)
  qed
  have loaded: "train_step env G (target\<lparr>trainable_variables := trainable_variables s\<rparr>) inputs
      = train_step env G s inputs"
    if "optimizer target = optimizer s" "train_accuracy target = train_accuracy s"
  proof -
    have "target\<lparr>trainable_variables := trainable_variables s\<rparr> = s"
      using that by simp
    then show ?thesis by (rule arg_cong)
  qed
  have "checkpoint_restore (checkpoint_save dir s) (latest_checkpoint (checkpoint_save dir s)) s = Inr s"
    by (simp add: restore_latest_after_save)
  moreover have "\<exists>r. checkpoint_restore (checkpoint_save dir s) (latest_checkpoint (checkpoint_save dir s)) target
          = Inr r
        \<and> trainable_variables r = trainable_variables s \<and> optimizer r = optimizer s
        \<and> (train_accuracy target = train_accuracy s
             \<longrightarrow> train_step env G r inputs = train_step env G s inputs)"
    using restored by (simp add: restore_latest_after_save)
  moreover have "\<exists>r. load_weights (save_weights store path s) path target = Inr r
        \<and> trainable_variables r = trainable_variables s
        \<and> (optimizer target = optimizer s \<and> train_accuracy target = train_accuracy s
             \<longrightarrow> train_step env G r inputs = train_step env G s inputs)"
    using loaded by (simp add: load_after_save_weights)
  ultimately show ?thesis
    by blast
qed

theorem checkpoint_round_trip_witness:
  "checkpoint_restore
      (checkpoint_save \<lparr>files = Map.empty, save_counter = 0\<rparr>
         \<lparr>trainable_variables = [Fin 5, Fin 0], optimizer = 0::nat, train_accuracy = \<lparr>total = 0, count = 0\<rparr>\<rparr>)
      (latest_checkpoint (checkpoint_save \<lparr>files = Map.empty, save_counter = 0\<rparr>
         \<lparr>trainable_variables = [Fin 5, Fin 0], optimizer = 0::nat, train_accuracy = \<lparr>total = 0, count = 0\<rparr>\<rparr>))
      \<lparr>trainable_variables = [Fin 1, Fin 1], optimizer = 7, train_accuracy = \<lparr>total = 0, count = 0\<rparr>\<rparr>
    = Inr \<lparr>trainable_variables = [Fin 5, Fin 0], optimizer = 0, train_accuracy = \<lparr>total = 0, count = 0\<rparr>\<rparr>
   \<and> latest_checkpoint (checkpoint_save \<lparr>files = Map.empty, save_counter = 0\<rparr>
         \<lparr>trainable_variables = [Fin 5, Fin 0], optimizer = 0::nat, train_accuracy = \<lparr>total = 0, count = 0\<rparr>\<rparr>)
    = Some 1
   \<and> train_step linear_model 2
        \<lparr>trainable_variables = [Fin 5, Fin 0], optimizer = 0, train_accuracy = \<lparr>total = 0, count = 0\<rparr>\<rparr>
        [(Fin 1, Fin 3), (Fin 2, Fin 4)]
      = (Fin 20, \<lparr>trainable_variables = [Fin (18 / 5), Fin (- (4 / 5))], optimizer = 1,
           train_accuracy = \<lparr>total = 0, count = 2\<rparr>\<rparr>)"
proof -
  have latest: "latest_checkpoint (checkpoint_save \<lparr>files = Map.empty, save_counter = 0\<rparr>
         \<lparr>trainable_variables = [Fin 5, Fin 0], optimizer = 0::nat, train_accuracy = \<lparr>total = 0, count = 0\<rparr>\<rparr>)
    = Some 1"
    by (simp add: latest_checkpoint_def checkpoint_save_def)
  from checkpoint_round_trip [of "\<lparr>files = Map.empty, save_counter = 0\<rparr>"
      "\<lparr>trainable_variables = [Fin 5, Fin 0], optimizer = 0::nat, train_accuracy = \<lparr>total = 0, count = 0\<rparr>\<rparr>"
      "\<lparr>trainable_variables = [Fin 1, Fin 1], optimizer = 7, train_accuracy = \<lparr>total = 0, count = 0\<rparr>\<rparr>"
      linear_model 2 "[(Fin 1, Fin 3), (Fin 2, Fin 4)]"]
  obtain r where r: "checkpoint_restore
      (checkpoint_save \<lparr>files = Map.empty, save_counter = 0\<rparr>
         \<lparr>trainable_variables = [Fin 5, Fin 0], optimizer = 0::nat, train_accuracy = \<lparr>total = 0, count = 0\<rparr>\<rparr>)
      (latest_checkpoint (checkpoint_save \<lparr>files = Map.empty, save_counter = 0\<rparr>
         \<lparr>trainable_variables = [Fin 5, Fin 0], optimizer = 0::nat, train_accuracy = \<lparr>total = 0, count = 0\<rparr>\<rparr>))
      \<lparr>trainable_variables = [Fin 1, Fin 1], optimizer = 7, train_accuracy = \<lparr>total = 0, count = 0\<rparr>\<rparr>
      = Inr r"
    and step: "train_step linear_model 2 r [(Fin 1, Fin 3), (Fin 2, Fin 4)]
      = train_step linear_model 2
          \<lparr>trainable_variables = [Fin 5, Fin 0], optimizer = 0::nat, train_accuracy = \<lparr>total = 0, count = 0\<rparr>\<rparr>
          [(Fin 1, Fin 3), (Fin 2, Fin 4)]"
    by auto
  have "r = \<lparr>trainable_variables = [Fin 5, Fin 0], optimizer = 0, train_accuracy = \<lparr>total = 0, count = 0\<rparr>\<rparr>"
    using r by (simp add: restore_latest_after_save)
  with r latest show ?thesis
    by (simp add: linear_model_step)
qed

section \<open>A fixed number of steps from an iterator\<close>

lemma train_steps_run:
  "position it + n \<le> length (source it) \<Longrightarrow>
   train_steps env G n (it, st)
     = Inr (it\<lparr>position := position it + n\<rparr>,
            train_loop env G st (take n (drop (position it) (source it))))"
proof (induction n arbitrary: it st)
  case 0
  then show ?case by (cases st) simp
next
  case (Suc n)
  obtain ms total_loss num_batches where st: "st = (ms, total_loss, num_batches)"
    by (cases st) auto
  have inside: "position it < length (source it)"
    using Suc.prems by simp
  then have batches: "take (Suc n) (drop (position it) (source it))
      = source it ! position it # take n (drop (Suc (position it)) (source it))"
    by (simp add: Cons_nth_drop_Suc [symmetric])
  have rest: "position (it\<lparr>position := position it + 1\<rparr>) + n
      \<le> length (source (it\<lparr>position := position it + 1\<rparr>))"
    using Suc.prems by simp
  show ?case
    using inside Suc.IH [OF rest]
    by (simp add: st next_batch_def batches case_prod_unfold Let_def)
qed

lemma train_steps_exhausted:
  "position it \<le> length (source it) \<Longrightarrow> length (source it) < position it + n \<Longrightarrow>
   train_steps env G n (it, st) = Inl StopIteration"
proof (induction n arbitrary: it st)
  case 0
  then show ?case by simp
next
  case (Suc n)
  obtain ms total_loss num_batches where st: "st = (ms, total_loss, num_batches)"
    by (cases st) auto
  show ?case
  proof (cases "position it < length (source it)")
    case True
    have "position (it\<lparr>position := position it + 1\<rparr>)
        \<le> length (source (it\<lparr>position := position it + 1\<rparr>))"
      and "length (source (it\<lparr>position := position it + 1\<rparr>))
        < position (it\<lparr>position := position it + 1\<rparr>) + n"
      using Suc.prems True by simp_all
    then have "train_steps env G n (it\<lparr>position := position it + 1\<rparr>, st') = Inl StopIteration" for st'
      by (rule Suc.IH)
    then show ?thesis
      using True by (simp add: st next_batch_def case_prod_unfold Let_def)
  next
    case False
    then show ?thesis
      by (simp add: st next_batch_def)
  qed
qed

text \<open>
  C9. When the iterator has at least \<open>n + m\<close> batches left, \<open>n\<close> steps from it succeed,
  consume exactly the next \<open>n\<close> batches in order and leave the iterator \<open>n\<close> positions
  further on the same sequence of batches; \<open>m\<close> more steps from that iterator then consume
  the \<open>m\<close> batches that follow, and the two runs together are one run of \<open>n + m\<close> steps:
  nothing is skipped or repeated. After 10 steps, 10 more start with the eleventh batch.
\<close>

theorem train_steps_resume:
  assumes "position it + n + m \<le> length (source it)"
  shows "train_steps env G n (it, st)
        = Inr (it\<lparr>position := position it + n\<rparr>,
               train_loop env G st (take n (drop (position it) (source it))))
    \<and> train_steps env G m
          (it\<lparr>position := position it + n\<rparr>,
           train_loop env G st (take n (drop (position it) (source it))))
        = Inr (it\<lparr>position := position it + n + m\<rparr>,
               train_loop env G (train_loop env G st (take n (drop (position it) (source it))))
                 (take m (drop (position it + n) (source it))))
    \<and> train_steps env G m
          (it\<lparr>position := position it + n\<rparr>,
           train_loop env G st (take n (drop (position it) (source it))))
        = train_steps env G (n + m) (it, st)
    \<and> take n (drop (position it) (source it)) @ take m (drop (position it + n) (source it))
        = take (n + m) (drop (position it) (source it))"
proof -
  have first: "train_steps env G n (it, st)
        = Inr (it\<lparr>position := position it + n\<rparr>,
               train_loop env G st (take n (drop (position it) (source it))))"
    using assms by (intro train_steps_run) simp
  have second: "train_steps env G m
          (it\<lparr>position := position it + n\<rparr>,
           train_loop env G st (take n (drop (position it) (source it))))
        = Inr (it\<lparr>position := position it + n + m\<rparr>,
               train_loop env G (train_loop env G st (take n (drop (position it) (source it))))
                 (take m (drop (position it + n) (source it))))"
    using assms
      train_steps_run [of "it\<lparr>position := position it + n\<rparr>" m env G
        "train_loop env G st (take n (drop (position it) (source it)))"]
    by simp
  have batches: "take n (drop (position it) (source it)) @ take m (drop (position it + n) (source it))
        = take (n + m) (drop (position it) (source it))"
    by (simp only: take_add drop_drop add.commute [of n "position it"])
  have loop: "train_loop env G (train_loop env G st xs) ys = train_loop env G st (xs @ ys)" for xs ys
  proof (induction xs arbitrary: st)
    case Nil
    then show ?case by (cases st) simp
  next
    case (Cons x xs)
    obtain ms total_loss num_batches where st: "st = (ms, total_loss, num_batches)"
      by (cases st) auto
    show ?case
      by (simp add: st case_prod_unfold Let_def Cons.IH)
  qed
  have both: "train_steps env G (n + m) (it, st)
        = Inr (it\<lparr>position := position it + (n + m)\<rparr>,
               train_loop env G st (take (n + m) (drop (position it) (source it))))"
    using assms by (intro train_steps_run) simp
  show ?thesis
    using first second batches both by (simp add: loop add.assoc)
qed


theorem train_steps_resume_witness:
  "train_steps linear_model 1 10
      (iter (map (\<lambda>k. [[(Fin (real k), Fin 0)]]) [0..<20]),
       \<lparr>replicas = [([Fin 5, Fin 0], 0)], accuracy = \<lparr>total = 0, count = 0\<rparr>\<rparr>, Fin 0, 0)
    = Inr (\<lparr>source = map (\<lambda>k. [[(Fin (real k), Fin 0)]]) [0..<20], position = 10\<rparr>,
           train_loop linear_model 1
             (\<lparr>replicas = [([Fin 5, Fin 0], 0)], accuracy = \<lparr>total = 0, count = 0\<rparr>\<rparr>, Fin 0, 0)
             (map (\<lambda>k. [[(Fin (real k), Fin 0)]]) [0..<10]))
   \<and> train_steps linear_model 1 10
      (\<lparr>source = map (\<lambda>k. [[(Fin (real k), Fin 0)]]) [0..<20], position = 10\<rparr>,
       train_loop linear_model 1
         (\<lparr>replicas = [([Fin 5, Fin 0], 0)], accuracy = \<lparr>total = 0, count = 0\<rparr>\<rparr>, Fin 0, 0)
         (map (\<lambda>k. [[(Fin (real k), Fin 0)]]) [0..<10]))
    = Inr (\<lparr>source = map (\<lambda>k. [[(Fin (real k), Fin 0)]]) [0..<20], position = 20\<rparr>,
           train_loop linear_model 1
             (train_loop linear_model 1
               (\<lparr>replicas = [([Fin 5, Fin 0], 0)], accuracy = \<lparr>total = 0, count = 0\<rparr>\<rparr>, Fin 0, 0)
               (map (\<lambda>k. [[(Fin (real k), Fin 0)]]) [0..<10]))
             (map (\<lambda>k. [[(Fin (real k), Fin 0)]]) [10..<20]))"
proof -
  have enough: "position (iter (map (\<lambda>k. [[(Fin (real k), Fin 0 :: tfloat)]]) [0..<20])) + 10 + 10
      \<le> length (source (iter (map (\<lambda>k. [[(Fin (real k), Fin 0 :: tfloat)]]) [0..<20])))"
    by (simp add: iter_def)
  show ?thesis
    using train_steps_resume [OF enough, of linear_model 1
        "(\<lparr>replicas = [([Fin 5, Fin 0], 0)], accuracy = \<lparr>total = 0, count = 0\<rparr>\<rparr>, Fin 0, 0)"]
    by (simp add: iter_def take_map drop_map)
qed


end
